theory Spec2Isabelle
  imports Complex_Main
begin

section \<open>Conventions\<close>

text \<open>
  The pipeline is Python. Its floats are modelled as the real numbers (exact arithmetic,
  no NaN), its strings as \<^typ>\<open>string\<close>, a value that may be \<^verbatim>\<open>None\<close> /
  SQL \<^verbatim>\<open>NULL\<close> as an \<^typ>\<open>'a option\<close>, a database table as the list of its
  rows in insertion order, and every source of nondeterminism (the clock, \<^verbatim>\<open>uuid4\<close>,
  what a provider returns, whether a step raises) as an explicit argument.
\<close>

subsection \<open>Python's \<^verbatim>\<open>round(x, 3)\<close> and \<^verbatim>\<open>round(x, 1)\<close>\<close>

text \<open>Rounding to the nearest integer, a tie going to the even neighbour.\<close>

definition round_half_even :: "real \<Rightarrow> int" where
  "round_half_even y =
     (let f = \<lfloor>y\<rfloor>; d = y - of_int f
      in if d < 1 / 2 then f
         else if 1 / 2 < d then f + 1
         else if even f then f else f + 1)"

definition py_round :: "real \<Rightarrow> nat \<Rightarrow> real" where
  "py_round x n = of_int (round_half_even (x * 10 ^ n)) / 10 ^ n"

section \<open>Gridded cyclone detection: \<^verbatim>\<open>detection/realtime_monitor.py\<close>\<close>

record detection_config =
  cfg_min_pressure_hpa :: real
  cfg_min_wind_ms :: real
  cfg_vorticity_threshold :: real

record region =
  north :: real
  south :: real
  west :: real
  east :: real

text \<open>\<^verbatim>\<open>CONFIG["detection"]\<close> and \<^verbatim>\<open>CONFIG["region"]\<close>.\<close>

definition CONFIG_detection :: detection_config where
  "CONFIG_detection =
     \<lparr>cfg_min_pressure_hpa = 1005, cfg_min_wind_ms = 17, cfg_vorticity_threshold = 3 / 100000\<rparr>"

definition CONFIG_region :: region where
  "CONFIG_region = \<lparr>north = 0, south = - 35, west = 20, east = 80\<rparr>"

text \<open>The dictionary appended to \<^verbatim>\<open>detections\<close> by \<^verbatim>\<open>detect_from_era5\<close>.\<close>

record detection =
  timestamp :: string
  lat :: real
  lon :: real
  min_pressure_hpa :: real
  max_wind_ms :: real
  max_wind_kt :: real
  confidence :: real
  source :: string
  threat_level :: string

text \<open>\<^verbatim>\<open>CycloneDetector._calculate_confidence\<close>.\<close>

definition calculate_confidence :: "real \<Rightarrow> real \<Rightarrow> real" where
  "calculate_confidence pressure wind =
     (let p_factor = max 0 ((1010 - pressure) / 30);
          w_factor = min 1 (wind / 33)
      in min 1 ((p_factor + w_factor) / 2))"

text \<open>\<^verbatim>\<open>CycloneDetector._get_threat_level\<close>.\<close>

definition get_threat_level :: "real \<Rightarrow> string" where
  "get_threat_level wind_ms =
     (let wind_kt = wind_ms * 1.944
      in if wind_kt \<ge> 137 then ''CAT5''
         else if wind_kt \<ge> 113 then ''CAT4''
         else if wind_kt \<ge> 96 then ''CAT3''
         else if wind_kt \<ge> 83 then ''CAT2''
         else if wind_kt \<ge> 64 then ''CAT1''
         else if wind_kt \<ge> 34 then ''TS''
         else ''TD'')"

text \<open>
  One time step of the opened dataset: the coordinate vectors, the pressure field in Pa
  (\<^verbatim>\<open>None\<close> when the dataset has neither \<^verbatim>\<open>msl\<close> nor
  \<^verbatim>\<open>mean_sea_level_pressure\<close>) and the two wind components (\<^verbatim>\<open>None\<close> unless
  both \<^verbatim>\<open>u10\<close> and \<^verbatim>\<open>v10\<close> are present). A field is the list of its rows.
\<close>

type_synonym field = "real list list"

record era5_step =
  step_time :: string
  latitude :: "real list"
  longitude :: "real list"
  msl :: "field option"
  u10_v10 :: "(field \<times> field) option"

text \<open>
  \<^verbatim>\<open>np.nanmin\<close> / \<^verbatim>\<open>np.nanmax\<close> of a field; on an empty field numpy raises, which
  the per-step \<^verbatim>\<open>try\<close> turns into skipping the step (\<^verbatim>\<open>None\<close> here).
\<close>

definition nanmin :: "field \<Rightarrow> real option" where
  "nanmin g = (case concat g of [] \<Rightarrow> None | x # xs \<Rightarrow> Some (fold min xs x))"

definition nanmax :: "field \<Rightarrow> real option" where
  "nanmax g = (case concat g of [] \<Rightarrow> None | x # xs \<Rightarrow> Some (fold max xs x))"

text \<open>Position of the first occurrence of a value in a flat list.\<close>

fun first_index :: "real list \<Rightarrow> real \<Rightarrow> nat" where
  "first_index [] v = 0"
| "first_index (x # xs) v = (if x = v then 0 else Suc (first_index xs v))"

text \<open>
  \<^verbatim>\<open>np.unravel_index(np.nanargmin(msl), msl.shape)\<close>: the row and column of the first
  minimum in row-major order.
\<close>

definition nanargmin_2d :: "field \<Rightarrow> (nat \<times> nat) option" where
  "nanargmin_2d g =
     (case nanmin g of
        None \<Rightarrow> None
      | Some m \<Rightarrow>
          (let k = first_index (concat g) m; ncols = length (hd g)
           in Some (k div ncols, k mod ncols)))"

text \<open>Indexing a coordinate vector; out of range raises, hence skips the step.\<close>

definition index_opt :: "'a list \<Rightarrow> nat \<Rightarrow> 'a option" where
  "index_opt xs i = (if i < length xs then Some (xs ! i) else None)"

text \<open>\<^verbatim>\<open>np.sqrt(u10**2 + v10**2)\<close>, cell by cell (both fields share the grid).\<close>

definition wind_speed :: "field \<Rightarrow> field \<Rightarrow> field" where
  "wind_speed u v = map (\<lambda>(ur, vr). map (\<lambda>(a, b). sqrt (a\<^sup>2 + b\<^sup>2)) (zip ur vr)) (zip u v)"

text \<open>
  The body of the loop over time steps in \<^verbatim>\<open>detect_from_era5\<close>: \<^verbatim>\<open>Some d\<close> when a
  detection is appended, \<^verbatim>\<open>None\<close> when the step ends without one (a threshold not
  met, a \<^verbatim>\<open>continue\<close>, or an exception caught by the per-step handler).
\<close>

definition detect_step :: "detection_config \<Rightarrow> region \<Rightarrow> era5_step \<Rightarrow> detection option" where
  "detect_step cfg reg st =
     (case msl st of
        None \<Rightarrow> None
      | Some msl_pa \<Rightarrow>
          (let msl_hpa = map (map (\<lambda>p. p / 100)) msl_pa in
           case nanmin msl_hpa of
             None \<Rightarrow> None
           | Some min_pressure \<Rightarrow>
               if min_pressure < cfg_min_pressure_hpa cfg then
                 (case nanargmin_2d msl_hpa of
                    None \<Rightarrow> None
                  | Some (i, j) \<Rightarrow>
                      (case (index_opt (latitude st) i, index_opt (longitude st) j) of
                         (Some la, Some lo) \<Rightarrow>
                           if \<not> (south reg \<le> la \<and> la \<le> north reg \<and> west reg \<le> lo \<and> lo \<le> east reg)
                           then None
                           else
                             (case (case u10_v10 st of
                                      None \<Rightarrow> Some 0
                                    | Some (u, v) \<Rightarrow> nanmax (wind_speed u v)) of
                                None \<Rightarrow> None
                              | Some max_wind \<Rightarrow>
                                  if max_wind \<ge> cfg_min_wind_ms cfg then
                                    Some \<lparr>timestamp = step_time st,
                                          lat = la,
                                          lon = lo,
                                          min_pressure_hpa = min_pressure,
                                          max_wind_ms = max_wind,
                                          max_wind_kt = max_wind * 1.944,
                                          confidence = calculate_confidence min_pressure max_wind,
                                          source = ''era5'',
                                          threat_level = get_threat_level max_wind\<rparr>
                                  else None)
                       | _ \<Rightarrow> None))
               else None))"

text \<open>
  \<^verbatim>\<open>CycloneDetector.detect_from_era5\<close>. The argument is \<^verbatim>\<open>None\<close> when xarray is
  missing or the file cannot be opened (the function then returns the empty list).
\<close>

definition detect_from_era5 ::
  "detection_config \<Rightarrow> region \<Rightarrow> era5_step list option \<Rightarrow> detection list" where
  "detect_from_era5 cfg reg ds =
     (case ds of None \<Rightarrow> [] | Some steps \<Rightarrow> List.map_filter (detect_step cfg reg) steps)"

text \<open>
  The specification's wording of the two derived fields, for comparison with the code:
  the confidence formula and the wind-class table of its section 4.3.1.
\<close>

definition clip :: "real \<Rightarrow> real \<Rightarrow> real \<Rightarrow> real" where
  "clip x lo hi = min hi (max lo x)"

definition spec_confidence :: "real \<Rightarrow> real \<Rightarrow> real" where
  "spec_confidence pressure_hpa wind_ms =
     clip ((1010 - pressure_hpa) / 30) 0 1 * 0.5 + clip (wind_ms / 33) 0 1 * 0.5"

definition spec_saffir_simpson :: "real \<Rightarrow> string" where
  "spec_saffir_simpson kt =
     (if 137 \<le> kt then ''CAT5''
      else if 113 \<le> kt then ''CAT4''
      else if 96 \<le> kt then ''CAT3''
      else if 83 \<le> kt then ''CAT2''
      else if 64 \<le> kt then ''CAT1''
      else if 34 \<le> kt then ''TS''
      else ''TD'')"

subsection \<open>One-cell datasets used as concrete inputs\<close>

definition border_step :: era5_step where
  "border_step =
     \<lparr>step_time = ''2019-03-14 00:00:00'', latitude = [- 19.85], longitude = [34.84],
      msl = Some [ [95500] ], u10_v10 = Some ([ [32.922] ], [ [0] ])\<rparr>"

definition border_detection :: detection where
  "border_detection =
     \<lparr>timestamp = ''2019-03-14 00:00:00'', lat = - 19.85, lon = 34.84, min_pressure_hpa = 955,
      max_wind_ms = 32.922, max_wind_kt = 64.000368, confidence = 1, source = ''era5'',
      threat_level = ''CAT1''\<rparr>"

definition deep_low_step :: era5_step where
  "deep_low_step =
     \<lparr>step_time = ''2019-03-14 06:00:00'', latitude = [- 19.85], longitude = [34.84],
      msl = Some [ [95000] ], u10_v10 = Some ([ [20] ], [ [0] ])\<rparr>"

definition deep_low_detection :: detection where
  "deep_low_detection =
     \<lparr>timestamp = ''2019-03-14 06:00:00'', lat = - 19.85, lon = 34.84, min_pressure_hpa = 950,
      max_wind_ms = 20, max_wind_kt = 38.88, confidence = 1, source = ''era5'',
      threat_level = ''TS''\<rparr>"

definition shallow_step :: era5_step where
  "shallow_step =
     \<lparr>step_time = ''2019-03-14 12:00:00'', latitude = [- 19.85], longitude = [34.84],
      msl = Some [ [99000] ], u10_v10 = Some ([ [20] ], [ [0] ])\<rparr>"

definition shallow_detection :: detection where
  "shallow_detection =
     \<lparr>timestamp = ''2019-03-14 12:00:00'', lat = - 19.85, lon = 34.84, min_pressure_hpa = 990,
      max_wind_ms = 20, max_wind_kt = 38.88, confidence = 7 / 11, source = ''era5'',
      threat_level = ''TS''\<rparr>"

text \<open>Two datasets whose maximum wind is exactly 64.0 and exactly 63.9 knots.\<close>

definition kt_64_step :: era5_step where
  "kt_64_step =
     \<lparr>step_time = ''2019-03-14 18:00:00'', latitude = [- 19.85], longitude = [34.84],
      msl = Some [ [95500] ], u10_v10 = Some ([ [8000 / 243] ], [ [0] ])\<rparr>"

definition kt_63_9_step :: era5_step where
  "kt_63_9_step =
     \<lparr>step_time = ''2019-03-15 00:00:00'', latitude = [- 19.85], longitude = [34.84],
      msl = Some [ [95500] ], u10_v10 = Some ([ [5325 / 162] ], [ [0] ])\<rparr>"

definition kt_64_detection :: detection where
  "kt_64_detection =
     \<lparr>timestamp = ''2019-03-14 18:00:00'', lat = - 19.85, lon = 34.84, min_pressure_hpa = 955,
      max_wind_ms = 8000 / 243, max_wind_kt = 64.0, confidence = 1, source = ''era5'',
      threat_level = ''CAT1''\<rparr>"

definition kt_63_9_detection :: detection where
  "kt_63_9_detection =
     \<lparr>timestamp = ''2019-03-15 00:00:00'', lat = - 19.85, lon = 34.84, min_pressure_hpa = 955,
      max_wind_ms = 5325 / 162, max_wind_kt = 63.9, confidence = 1, source = ''era5'',
      threat_level = ''TS''\<rparr>"

section \<open>Landslide cell risk: \<^verbatim>\<open>detection/landslide_risk.py\<close>\<close>

record thresholds =
  slope_low :: real
  slope_medium :: real
  slope_high :: real
  slope_extreme :: real
  rainfall_low :: real
  rainfall_medium :: real
  rainfall_high :: real
  rainfall_extreme :: real
  soil_moisture_high :: real

text \<open>\<^verbatim>\<open>CONFIG["thresholds"]\<close>, which the calculator keeps as \<^verbatim>\<open>self.thresholds\<close>.\<close>

definition CONFIG_thresholds :: thresholds where
  "CONFIG_thresholds =
     \<lparr>slope_low = 10, slope_medium = 15, slope_high = 25, slope_extreme = 35,
      rainfall_low = 50, rainfall_medium = 100, rainfall_high = 200, rainfall_extreme = 400,
      soil_moisture_high = 0.8\<rparr>"

text \<open>
  \<^verbatim>\<open>LandslideRiskCalculator._calculate_cell_risk\<close>, in the order of its body: the two
  factor chains, the composite score, the level chain. The function returns the level
  and the score rounded to three decimals (its third result, a formatted text, is left out).
\<close>

definition slope_factor :: "thresholds \<Rightarrow> real \<Rightarrow> real" where
  "slope_factor t slope =
     (if slope \<ge> slope_extreme t then 1.0
      else if slope \<ge> slope_high t then 0.8
      else if slope \<ge> slope_medium t then 0.5
      else if slope \<ge> slope_low t then 0.2
      else 0.0)"

definition rain_factor :: "thresholds \<Rightarrow> real \<Rightarrow> real" where
  "rain_factor t rainfall =
     (if rainfall \<ge> rainfall_extreme t then 1.0
      else if rainfall \<ge> rainfall_high t then 0.8
      else if rainfall \<ge> rainfall_medium t then 0.5
      else if rainfall \<ge> rainfall_low t then 0.2
      else 0.0)"

definition classify_score :: "real \<Rightarrow> string" where
  "classify_score score =
     (if score \<ge> 0.8 then ''EXTREME''
      else if score \<ge> 0.5 then ''HIGH''
      else if score \<ge> 0.3 then ''MEDIUM''
      else if score \<ge> 0.1 then ''LOW''
      else ''MINIMAL'')"

definition calculate_cell_risk :: "thresholds \<Rightarrow> real \<Rightarrow> real \<Rightarrow> string \<times> real" where
  "calculate_cell_risk t slope rainfall =
     (let score = sqrt (slope_factor t slope * rain_factor t rainfall);
          level = classify_score score
      in (level, py_round score 3))"

text \<open>The specification's two factor tables, for comparison with the code.\<close>

definition spec_slope_factor :: "real \<Rightarrow> real" where
  "spec_slope_factor slope_deg =
     (if slope_deg < 10 then 0.0
      else if slope_deg < 15 then 0.2
      else if slope_deg < 25 then 0.5
      else if slope_deg < 35 then 0.8
      else 1.0)"

definition spec_rain_factor :: "real \<Rightarrow> real" where
  "spec_rain_factor rainfall_mm =
     (if rainfall_mm < 50 then 0.0
      else if rainfall_mm < 100 then 0.2
      else if rainfall_mm < 200 then 0.5
      else if rainfall_mm < 400 then 0.8
      else 1.0)"

definition spec_risk_level :: "real \<Rightarrow> string" where
  "spec_risk_level score =
     (if 0.8 \<le> score then ''EXTREME''
      else if 0.5 \<le> score then ''HIGH''
      else if 0.3 \<le> score then ''MEDIUM''
      else if 0.1 \<le> score then ''LOW''
      else ''MINIMAL'')"

section \<open>Convergence of cyclones and outbreaks: \<^verbatim>\<open>data_sources/who_fetcher.py\<close>\<close>

text \<open>
  The fields of an outbreak and of a cyclone dictionary that \<^verbatim>\<open>check_convergence\<close>
  reads. \<^verbatim>\<open>coordinates\<close> is \<^verbatim>\<open>[lon, lat]\<close>; a cyclone's location is kept as
  \<open>(lat, lon)\<close>.
\<close>

type_synonym point = "real \<times> real"

record outbreak =
  ob_disease :: string
  ob_location :: string
  ob_coordinates :: "real \<times> real"
  ob_severity :: string
  ob_cases :: int

record cyclone =
  cy_location :: point
  cy_track_probability :: real
  cy_threat_level :: string

record conv_outbreak =
  co_disease :: string
  co_location :: string
  co_severity :: string
  co_cases :: int

record conv_cyclone =
  cc_location :: point
  cc_probability :: real
  cc_threat_level :: string

record convergence =
  cv_outbreak :: conv_outbreak
  cv_cyclone :: conv_cyclone
  distance_km :: real
  risk_score :: real
  alert_priority :: string

text \<open>The dictionary \<^verbatim>\<open>severity_scores\<close> and its lookup with default 0.5.\<close>

definition severity_scores :: "(string \<times> real) list" where
  "severity_scores = [(''low'', 0.2), (''medium'', 0.5), (''high'', 0.8)]"

definition severity_score :: "string \<Rightarrow> real" where
  "severity_score s = (case map_of severity_scores s of None \<Rightarrow> 0.5 | Some v \<Rightarrow> v)"

text \<open>\<^verbatim>\<open>WHOAFROFetcher.calculate_convergence_risk\<close>.\<close>

definition calculate_convergence_risk :: "outbreak \<Rightarrow> cyclone \<Rightarrow> real \<Rightarrow> real" where
  "calculate_convergence_risk ob cyc dist_km =
     (let risk0 = 0.0;
          distance_factor = max 0 (1 - dist_km / 500);
          risk1 = risk0 + distance_factor * 0.3;
          risk2 = risk1 + severity_score (ob_severity ob) * 0.3;
          risk3 = risk2 + cy_track_probability cyc * 0.2;
          cases_factor = min 1.0 (of_int (ob_cases ob) / 200);
          risk4 = risk3 + cases_factor * 0.2
      in py_round risk4 3)"

text \<open>\<^verbatim>\<open>tuple(reversed(outbreak['coordinates']))\<close>: from \<open>[lon, lat]\<close> to \<open>(lat, lon)\<close>.\<close>

definition outbreak_loc :: "outbreak \<Rightarrow> point" where
  "outbreak_loc ob = (snd (ob_coordinates ob), fst (ob_coordinates ob))"

text \<open>The dictionary built for a pair found closer than the threshold.\<close>

definition make_convergence :: "outbreak \<Rightarrow> cyclone \<Rightarrow> real \<Rightarrow> convergence" where
  "make_convergence ob cyc distance =
     \<lparr>cv_outbreak = \<lparr>co_disease = ob_disease ob, co_location = ob_location ob,
                      co_severity = ob_severity ob, co_cases = ob_cases ob\<rparr>,
      cv_cyclone = \<lparr>cc_location = cy_location cyc, cc_probability = cy_track_probability cyc,
                     cc_threat_level = cy_threat_level cyc\<rparr>,
      distance_km = py_round distance 1,
      risk_score = calculate_convergence_risk ob cyc distance,
      alert_priority = (if distance < 200 then ''HIGH'' else ''MEDIUM'')\<rparr>"

text \<open>
  \<^verbatim>\<open>WHOAFROFetcher.check_convergence\<close>. The distance routine is the library call
  \<^verbatim>\<open>geopy.distance.geodesic(a, b).kilometers\<close>, which is not part of the repository:
  it is the parameter \<open>geodesic\<close>, \<^verbatim>\<open>None\<close> standing for the call raising (geopy
  rejects a latitude outside \<open>[-90, 90]\<close>). The two loops run inside one \<^verbatim>\<open>try\<close>
  whose handler only logs, so an exception ends both loops and the convergences found so
  far are returned: \<open>Inl\<close> carries them out of the loops.
\<close>

fun check_cyclones ::
  "(point \<Rightarrow> point \<Rightarrow> real option) \<Rightarrow> real \<Rightarrow> outbreak \<Rightarrow> cyclone list \<Rightarrow> convergence list
     \<Rightarrow> convergence list + convergence list" where
  "check_cyclones geodesic thr ob [] convergences = Inr convergences"
| "check_cyclones geodesic thr ob (cyc # rest) convergences =
     (case geodesic (outbreak_loc ob) (cy_location cyc) of
        None \<Rightarrow> Inl convergences
      | Some distance \<Rightarrow>
          check_cyclones geodesic thr ob rest
            (if distance < thr then convergences @ [make_convergence ob cyc distance]
             else convergences))"

fun check_outbreaks ::
  "(point \<Rightarrow> point \<Rightarrow> real option) \<Rightarrow> real \<Rightarrow> outbreak list \<Rightarrow> cyclone list \<Rightarrow> convergence list
     \<Rightarrow> convergence list + convergence list" where
  "check_outbreaks geodesic thr [] cyclone_data convergences = Inr convergences"
| "check_outbreaks geodesic thr (ob # rest) cyclone_data convergences =
     (case check_cyclones geodesic thr ob cyclone_data convergences of
        Inl found \<Rightarrow> Inl found
      | Inr found \<Rightarrow> check_outbreaks geodesic thr rest cyclone_data found)"

definition check_convergence ::
  "(point \<Rightarrow> point \<Rightarrow> real option) \<Rightarrow> outbreak list \<Rightarrow> cyclone list \<Rightarrow> real \<Rightarrow> convergence list" where
  "check_convergence geodesic outbreaks cyclone_data distance_threshold_km =
     (case check_outbreaks geodesic distance_threshold_km outbreaks cyclone_data [] of
        Inl found \<Rightarrow> found
      | Inr found \<Rightarrow> found)"



subsection \<open>The scenario of one cyclone near one cholera outbreak, as concrete input\<close>





text \<open>
  What one pair contributes when the distance routine answers: used to describe the result
  of the two loops when no call raises.
\<close>

definition pair_convergence ::
  "(point \<Rightarrow> point \<Rightarrow> real option) \<Rightarrow> real \<Rightarrow> outbreak \<Rightarrow> cyclone \<Rightarrow> convergence option" where
  "pair_convergence geo thr ob c =
     (case geo (outbreak_loc ob) (cy_location c) of
        None \<Rightarrow> None
      | Some d \<Rightarrow> if d < thr then Some (make_convergence ob c d) else None)"

section \<open>Alert database and sender: \<^verbatim>\<open>alerts/guerrilla_alerts.py\<close>\<close>

subsection \<open>Institutional recipients\<close>

record recipient =
  rc_name :: string
  rc_email :: string
  rc_type :: string
  rc_priority :: nat

record recipients_config =
  rcfg_country :: string
  rcfg_recipients :: "recipient list"

text \<open>The dictionary \<^verbatim>\<open>INSTITUTIONAL_RECIPIENTS\<close>, as the list of its items.\<close>

definition INSTITUTIONAL_RECIPIENTS :: "(string \<times> recipients_config) list" where
  "INSTITUTIONAL_RECIPIENTS =
     [(''mozambique'',
       \<lparr>rcfg_country = ''Mozambique'',
        rcfg_recipients =
          [\<lparr>rc_name = ''INAM'', rc_email = ''geral@inam.gov.mz'',
            rc_type = ''meteorological'', rc_priority = 1\<rparr>,
           \<lparr>rc_name = ''INGD'', rc_email = ''info@ingd.gov.mz'',
            rc_type = ''disaster_management'', rc_priority = 1\<rparr>,
           \<lparr>rc_name = ''WHO Mozambique'', rc_email = ''wrmozambique@who.int'',
            rc_type = ''health'', rc_priority = 2\<rparr>]\<rparr>),
      (''madagascar'',
       \<lparr>rcfg_country = ''Madagascar'',
        rcfg_recipients =
          [\<lparr>rc_name = ''Meteo Madagascar'', rc_email = ''direction@meteo.mg'',
            rc_type = ''meteorological'', rc_priority = 1\<rparr>,
           \<lparr>rc_name = ''BNGRC'', rc_email = ''bngrc@bngrc.mg'',
            rc_type = ''disaster_management'', rc_priority = 1\<rparr>,
           \<lparr>rc_name = ''WHO Madagascar'', rc_email = ''wrmadagascar@who.int'',
            rc_type = ''health'', rc_priority = 2\<rparr>]\<rparr>),
      (''malawi'',
       \<lparr>rcfg_country = ''Malawi'',
        rcfg_recipients =
          [\<lparr>rc_name = ''DoDMA'', rc_email = ''info@dodma.gov.mw'',
            rc_type = ''disaster_management'', rc_priority = 1\<rparr>,
           \<lparr>rc_name = ''WHO Malawi'', rc_email = ''wrmalawi@who.int'',
            rc_type = ''health'', rc_priority = 2\<rparr>]\<rparr>),
      (''zimbabwe'',
       \<lparr>rcfg_country = ''Zimbabwe'',
        rcfg_recipients =
          [\<lparr>rc_name = ''MSD Zimbabwe'', rc_email = ''info@weather.co.zw'',
            rc_type = ''meteorological'', rc_priority = 1\<rparr>,
           \<lparr>rc_name = ''Civil Protection'', rc_email = ''dcp@civilprotection.gov.zw'',
            rc_type = ''disaster_management'', rc_priority = 1\<rparr>]\<rparr>),
      (''regional'',
       \<lparr>rcfg_country = ''Regional'',
        rcfg_recipients =
          [\<lparr>rc_name = ''ACMAD'', rc_email = ''acmad@acmad.org'',
            rc_type = ''meteorological'', rc_priority = 1\<rparr>,
           \<lparr>rc_name = ''ICPAC'', rc_email = ''info@icpac.net'',
            rc_type = ''meteorological'', rc_priority = 2\<rparr>,
           \<lparr>rc_name = ''WHO AFRO'', rc_email = ''afrflashinfo@who.int'',
            rc_type = ''health'', rc_priority = 1\<rparr>]\<rparr>)]"

subsection \<open>The tables \<^verbatim>\<open>sent_alerts\<close> and \<^verbatim>\<open>tracking_opens\<close>\<close>

text \<open>
  A row of \<^verbatim>\<open>sent_alerts\<close> (without the columns the engine fills in by itself, the
  row number and \<^verbatim>\<open>created_at\<close>) and a row of \<^verbatim>\<open>tracking_opens\<close>. A table is the
  list of its rows, oldest first.
\<close>

record sent_alert =
  alert_id :: string
  hazard_type :: string
  hazard_id :: "string option"
  country :: string
  recipients :: "string list"
  subject :: string
  sent_at :: string
  tracking_pixel_id :: string
  opened_at :: "string option"
  validated :: bool
  validation_notes :: "string option"

record tracking_open =
  to_tracking_id :: string
  to_opened_at :: string
  to_ip_address :: "string option"
  to_user_agent :: "string option"

record alert_db =
  sent_alerts :: "sent_alert list"
  tracking_opens :: "tracking_open list"

text \<open>The dictionary \<^verbatim>\<open>alert_data\<close> handed to \<^verbatim>\<open>log_sent_alert\<close>.\<close>

record alert_data =
  ad_hazard_type :: string
  ad_hazard_id :: "string option"
  ad_country :: string
  ad_recipients :: "string list"
  ad_subject :: string

text \<open>
  What one pass of the sender's loop reads from the outside: the clock in
  \<^verbatim>\<open>send_hazard_alert\<close>, the text of \<^verbatim>\<open>uuid.uuid4()\<close>, and the clock twice in
  \<^verbatim>\<open>log_sent_alert\<close> (each an ISO time text).
\<close>

record iteration_io =
  io_now_tracking :: string
  io_uuid4 :: string
  io_now_token :: string
  io_now_sent :: string

text \<open>The column \<^verbatim>\<open>alert_id\<close> is \<^verbatim>\<open>UNIQUE\<close>: inserting a duplicate raises.\<close>

datatype db_error = IntegrityError

text \<open>
  \<^verbatim>\<open>AlertDatabase.log_sent_alert\<close>. The parameter \<open>md5_hexdigest\<close> is
  \<^verbatim>\<open>hashlib.md5(s.encode()).hexdigest()\<close>, a library function.
\<close>

definition log_sent_alert ::
  "(string \<Rightarrow> string) \<Rightarrow> iteration_io \<Rightarrow> alert_db \<Rightarrow> alert_data \<Rightarrow> db_error + (string \<times> alert_db)" where
  "log_sent_alert md5_hexdigest io db ad =
     (let new_id = take 12 (io_uuid4 io);
          tracking_id = take 16 (md5_hexdigest (new_id @ ''_'' @ io_now_token io))
      in if new_id \<in> set (map alert_id (sent_alerts db)) then Inl IntegrityError
         else Inr (new_id,
                   db\<lparr>sent_alerts := sent_alerts db @
                        [\<lparr>alert_id = new_id,
                          hazard_type = ad_hazard_type ad,
                          hazard_id = ad_hazard_id ad,
                          country = ad_country ad,
                          recipients = ad_recipients ad,
                          subject = ad_subject ad,
                          sent_at = io_now_sent io,
                          tracking_pixel_id = tracking_id,
                          opened_at = None,
                          validated = False,
                          validation_notes = None\<rparr>]\<rparr>))"

text \<open>
  The effect on one row of \<^verbatim>\<open>UPDATE sent_alerts SET opened_at = ? WHERE
  tracking_pixel_id = ? AND opened_at IS NULL\<close>.
\<close>

definition mark_opened :: "string \<Rightarrow> string \<Rightarrow> sent_alert \<Rightarrow> sent_alert" where
  "mark_opened tracking_id now a =
     (if tracking_pixel_id a = tracking_id \<and> opened_at a = None
      then a\<lparr>opened_at := Some now\<rparr> else a)"

text \<open>
  \<^verbatim>\<open>AlertDatabase.log_tracking_open\<close>; \<open>now_open\<close> and \<open>now_update\<close> are the two
  readings of the clock, for the inserted row and for the update.
\<close>

definition log_tracking_open ::
  "alert_db \<Rightarrow> string \<Rightarrow> string \<Rightarrow> string \<Rightarrow> string option \<Rightarrow> string option \<Rightarrow> alert_db" where
  "log_tracking_open db tracking_id now_open now_update ip ua =
     db\<lparr>tracking_opens := tracking_opens db @
           [\<lparr>to_tracking_id = tracking_id, to_opened_at = now_open,
             to_ip_address = ip, to_user_agent = ua\<rparr>],
        sent_alerts := map (mark_opened tracking_id now_update) (sent_alerts db)\<rparr>"

text \<open>A pixel request: the two clock readings, the address and the user agent.\<close>

type_synonym open_event = "string \<times> string \<times> string option \<times> string option"

text \<open>A sequence of \<^verbatim>\<open>log_tracking_open\<close> calls with one tracking id.\<close>

fun record_opens :: "alert_db \<Rightarrow> string \<Rightarrow> open_event list \<Rightarrow> alert_db" where
  "record_opens db tracking_id [] = db"
| "record_opens db tracking_id ((now_open, now_update, ip, ua) # rest) =
     record_opens (log_tracking_open db tracking_id now_open now_update ip ua) tracking_id rest"

subsection \<open>Messages\<close>

text \<open>
  The hazard dictionary, by the keys the sender and the builders read; \<^verbatim>\<open>None\<close> is
  an absent key.
\<close>

record hazard_data =
  hz_id :: "string option"
  hz_type :: "string option"
  hz_lat :: "real option"
  hz_lon :: "real option"
  hz_threat_level :: "string option"
  hz_severity :: "string option"

text \<open>
  Of the three texts a builder returns, the model keeps the subject and the places where
  the tracking id is written: the line \<^verbatim>\<open>Alert ID: ...\<close> of the plain and of the HTML
  body, and the source of the tracking image (only the cyclone message has one). The
  rest of the bodies (a template around formatted numbers) is left out.
\<close>

record email =
  em_subject :: string
  em_text_alert_id :: string
  em_html_alert_id :: string
  em_pixel_src :: "string option"

definition get_default :: "'a option \<Rightarrow> 'a \<Rightarrow> 'a" where
  "get_default v d = (case v of None \<Rightarrow> d | Some x \<Rightarrow> x)"

text \<open>\<^verbatim>\<open>str.upper\<close> on ASCII letters.\<close>

definition upper_char :: "char \<Rightarrow> char" where
  "upper_char c =
     (if 97 \<le> (of_char c :: nat) \<and> (of_char c :: nat) \<le> 122 then char_of (of_char c - 32 :: nat) else c)"

definition upper :: "string \<Rightarrow> string" where
  "upper s = map upper_char s"

text \<open>\<^verbatim>\<open>AlertEmailBuilder.build_cyclone_alert\<close> and \<^verbatim>\<open>build_flood_alert\<close>.\<close>

definition build_cyclone_alert :: "string \<Rightarrow> hazard_data \<Rightarrow> string \<Rightarrow> string \<Rightarrow> email" where
  "build_cyclone_alert pixel_url hz country_name tracking_id =
     \<lparr>em_subject = ''[AFRO STORM] Tropical System Alert for '' @ country_name @ '' - ''
                     @ get_default (hz_threat_level hz) ''TD'',
      em_text_alert_id = tracking_id,
      em_html_alert_id = tracking_id,
      em_pixel_src = Some (pixel_url @ ''/'' @ tracking_id @ ''.png'')\<rparr>"

definition build_flood_alert :: "hazard_data \<Rightarrow> string \<Rightarrow> string \<Rightarrow> email" where
  "build_flood_alert hz country_name tracking_id =
     \<lparr>em_subject = ''[AFRO STORM] Flood Alert for '' @ country_name @ '' - ''
                     @ upper (get_default (hz_severity hz) ''moderate''),
      em_text_alert_id = tracking_id,
      em_html_alert_id = tracking_id,
      em_pixel_src = None\<rparr>"

subsection \<open>The sender\<close>

text \<open>\<^verbatim>\<open>GuerrillaAlertSender._detect_countries\<close>.\<close>

definition detect_countries :: "hazard_data \<Rightarrow> string list" where
  "detect_countries hz =
     (let la = get_default (hz_lat hz) 0; lo = get_default (hz_lon hz) 0
      in (if - 27 < la \<and> la < - 10 \<and> 30 < lo \<and> lo < 42 then [''mozambique''] else [])
       @ (if - 26 < la \<and> la < - 12 \<and> 43 < lo \<and> lo < 51 then [''madagascar''] else [])
       @ (if - 17 < la \<and> la < - 9 \<and> 32 < lo \<and> lo < 36 then [''malawi''] else [])
       @ (if - 23 < la \<and> la < - 15 \<and> 25 < lo \<and> lo < 34 then [''zimbabwe''] else [])
       @ (if - 30 < la \<and> la < 0 \<and> 30 < lo \<and> lo < 80 then [''regional''] else []))"

text \<open>
  The settings and library functions the sender depends on: MD5 and the base address of
  the tracking image (\<^verbatim>\<open>CONFIG["tracking"]["pixel_url"]\<close>, read from the environment).
\<close>

record sender_env =
  md5_hexdigest :: "string \<Rightarrow> string"
  pixel_url :: string

text \<open>
  The state the loop of \<^verbatim>\<open>send_hazard_alert\<close> carries: the alert ids collected, the
  messages built (with the country key; whether they are then sent by SMTP or only
  logged in a dry run does not touch the database) and the database.
\<close>

type_synonym send_state = "string list \<times> (string \<times> email) list \<times> alert_db"

text \<open>
  The loop over \<^verbatim>\<open>countries\<close>; \<open>k\<close> counts the passes and \<open>io k\<close> is what pass
  \<open>k\<close> reads from the clock and from \<^verbatim>\<open>uuid4\<close>. An exception of the insert leaves
  the function with the database as it then is.
\<close>

fun send_loop ::
  "sender_env \<Rightarrow> (nat \<Rightarrow> iteration_io) \<Rightarrow> hazard_data \<Rightarrow> nat \<Rightarrow> string list \<Rightarrow> send_state
     \<Rightarrow> (db_error \<times> alert_db) + send_state" where
  "send_loop env io hz k [] st = Inr st"
| "send_loop env io hz k (c # rest) (alert_ids, built, db) =
     (case map_of INSTITUTIONAL_RECIPIENTS c of
        None \<Rightarrow> send_loop env io hz (Suc k) rest (alert_ids, built, db)
      | Some recipients_config \<Rightarrow>
          (let htype = get_default (hz_type hz) ''cyclone'';
               tracking_id =
                 take 16 (md5_hexdigest env
                   (get_default (hz_id hz) '''' @ ''_'' @ c @ ''_'' @ io_now_tracking (io k)))
           in case (if htype = ''cyclone''
                    then Some (build_cyclone_alert (pixel_url env) hz
                                 (rcfg_country recipients_config) tracking_id)
                    else if htype = ''flood''
                    then Some (build_flood_alert hz (rcfg_country recipients_config) tracking_id)
                    else None) of
                None \<Rightarrow> send_loop env io hz (Suc k) rest (alert_ids, built, db)
              | Some message \<Rightarrow>
                  (case log_sent_alert (md5_hexdigest env) (io k) db
                          \<lparr>ad_hazard_type = htype,
                           ad_hazard_id = hz_id hz,
                           ad_country = c,
                           ad_recipients = map rc_email (rcfg_recipients recipients_config),
                           ad_subject = em_subject message\<rparr> of
                     Inl e \<Rightarrow> Inl (e, db)
                   | Inr (new_id, db') \<Rightarrow>
                       send_loop env io hz (Suc k) rest
                         (alert_ids @ [new_id], built @ [(c, message)], db'))))"

text \<open>
  \<^verbatim>\<open>GuerrillaAlertSender.send_hazard_alert\<close>. \<open>countries\<close> is \<^verbatim>\<open>None\<close> when the
  argument is omitted; an empty list counts as omitted too (\<^verbatim>\<open>if not countries\<close>).
\<close>

definition effective_countries :: "hazard_data \<Rightarrow> string list option \<Rightarrow> string list" where
  "effective_countries hz countries =
     (case countries of
        None \<Rightarrow> detect_countries hz
      | Some cs \<Rightarrow> if cs = [] then detect_countries hz else cs)"

definition send_hazard_alert ::
  "sender_env \<Rightarrow> (nat \<Rightarrow> iteration_io) \<Rightarrow> alert_db \<Rightarrow> hazard_data \<Rightarrow> string list option \<Rightarrow> bool
     \<Rightarrow> (db_error \<times> alert_db) + send_state" where
  "send_hazard_alert env io db hz countries dry_run =
     (let cs = effective_countries hz countries
      in if cs = [] then Inr ([], [], db)
         else send_loop env io hz 0 cs ([], [], db))"

subsection \<open>The test hazard of the command line, sent twice one hour apart\<close>

definition test_hazard :: hazard_data where
  "test_hazard =
     \<lparr>hz_id = Some ''test_001'', hz_type = Some ''cyclone'', hz_lat = Some (- 19.85),
      hz_lon = Some 34.84, hz_threat_level = Some ''CAT2'', hz_severity = None\<rparr>"

text \<open>
  MD5 on the four texts that the two runs below hash (the values are those of
  \<^verbatim>\<open>hashlib.md5(s.encode()).hexdigest()\<close>); no other argument occurs in these runs.
\<close>

definition sample_md5 :: "string \<Rightarrow> string" where
  "sample_md5 s =
     (if s = ''test_001_mozambique_2026-11-03T10:00:00.000100''
        then ''872882506f9ee82e87d272fbfcb64d93''
      else if s = ''1b9d6bcd-bbf_2026-11-03T10:00:00.000200''
        then ''bf4158c5be865385cb2da22e4176c66b''
      else if s = ''test_001_mozambique_2026-11-03T11:00:00.000100''
        then ''46d57bb9de2f1c25f8413761c4543d59''
      else if s = ''6ec0bd7f-11c_2026-11-03T11:00:00.000200''
        then ''10b25603f69aed5d4fd4e8f2e955764b''
      else [])"

definition sample_env :: sender_env where
  "sample_env = \<lparr>md5_hexdigest = sample_md5, pixel_url = ''https://afrostorm.org/track''\<rparr>"

definition io_10h :: "nat \<Rightarrow> iteration_io" where
  "io_10h k =
     \<lparr>io_now_tracking = ''2026-11-03T10:00:00.000100'',
      io_uuid4 = ''1b9d6bcd-bbfd-4b2d-9b5d-ab8dfbbd4bed'',
      io_now_token = ''2026-11-03T10:00:00.000200'',
      io_now_sent = ''2026-11-03T10:00:00.000300''\<rparr>"

definition io_11h :: "nat \<Rightarrow> iteration_io" where
  "io_11h k =
     \<lparr>io_now_tracking = ''2026-11-03T11:00:00.000100'',
      io_uuid4 = ''6ec0bd7f-11c0-43da-975e-2a8ad9ebae0b'',
      io_now_token = ''2026-11-03T11:00:00.000200'',
      io_now_sent = ''2026-11-03T11:00:00.000300''\<rparr>"

definition empty_db :: alert_db where
  "empty_db = \<lparr>sent_alerts = [], tracking_opens = []\<rparr>"

definition mozambique_emails :: "string list" where
  "mozambique_emails = [''geral@inam.gov.mz'', ''info@ingd.gov.mz'', ''wrmozambique@who.int'']"

definition alert_10h :: sent_alert where
  "alert_10h =
     \<lparr>alert_id = ''1b9d6bcd-bbf'', hazard_type = ''cyclone'', hazard_id = Some ''test_001'',
      country = ''mozambique'', recipients = mozambique_emails,
      subject = ''[AFRO STORM] Tropical System Alert for Mozambique - CAT2'',
      sent_at = ''2026-11-03T10:00:00.000300'', tracking_pixel_id = ''bf4158c5be865385'',
      opened_at = None, validated = False, validation_notes = None\<rparr>"

definition alert_11h :: sent_alert where
  "alert_11h =
     \<lparr>alert_id = ''6ec0bd7f-11c'', hazard_type = ''cyclone'', hazard_id = Some ''test_001'',
      country = ''mozambique'', recipients = mozambique_emails,
      subject = ''[AFRO STORM] Tropical System Alert for Mozambique - CAT2'',
      sent_at = ''2026-11-03T11:00:00.000300'', tracking_pixel_id = ''10b25603f69aed5d'',
      opened_at = None, validated = False, validation_notes = None\<rparr>"

definition email_10h :: email where
  "email_10h =
     \<lparr>em_subject = ''[AFRO STORM] Tropical System Alert for Mozambique - CAT2'',
      em_text_alert_id = ''872882506f9ee82e'',
      em_html_alert_id = ''872882506f9ee82e'',
      em_pixel_src = Some ''https://afrostorm.org/track/872882506f9ee82e.png''\<rparr>"

definition email_11h :: email where
  "email_11h =
     \<lparr>em_subject = ''[AFRO STORM] Tropical System Alert for Mozambique - CAT2'',
      em_text_alert_id = ''46d57bb9de2f1c25'',
      em_html_alert_id = ''46d57bb9de2f1c25'',
      em_pixel_src = Some ''https://afrostorm.org/track/46d57bb9de2f1c25.png''\<rparr>"

definition db_after_10h :: alert_db where
  "db_after_10h = \<lparr>sent_alerts = [alert_10h], tracking_opens = []\<rparr>"

definition db_after_11h :: alert_db where
  "db_after_11h = \<lparr>sent_alerts = [alert_10h, alert_11h], tracking_opens = []\<rparr>"

text \<open>The countries that have an entry in \<^verbatim>\<open>INSTITUTIONAL_RECIPIENTS\<close>.\<close>

definition known_country :: "string \<Rightarrow> bool" where
  "known_country c = (map_of INSTITUTIONAL_RECIPIENTS c \<noteq> None)"

text \<open>Two requests for the tracking image, at noon and a minute later.\<close>

definition two_opens :: "open_event list" where
  "two_opens =
     [(''2026-11-03T12:00:00.000100'', ''2026-11-03T12:00:00.000200'', Some ''196.3.96.1'', None),
      (''2026-11-03T12:01:00.000100'', ''2026-11-03T12:01:00.000200'', Some ''196.3.96.1'', None)]"

section \<open>The monitor's cycle: \<^verbatim>\<open>detection/realtime_monitor.py\<close>\<close>

subsection \<open>The monitor's database\<close>

text \<open>
  A detection dictionary as the cycle handles it: forecasts from FNV3 and detections from
  ERA5 carry different keys, so every key is optional (\<^verbatim>\<open>None\<close> is an absent key).
\<close>

record det_dict =
  dd_timestamp :: "string option"
  dd_lat :: "real option"
  dd_lon :: "real option"
  dd_min_pressure_hpa :: "real option"
  dd_max_wind_ms :: "real option"
  dd_max_wind_kt :: "real option"
  dd_confidence :: "real option"
  dd_source :: "string option"
  dd_track_probability :: "real option"
  dd_threat_level :: "string option"

text \<open>The dictionary of an ERA5 detection, seen as such a dictionary.\<close>

definition of_era5 :: "detection \<Rightarrow> det_dict" where
  "of_era5 d =
     \<lparr>dd_timestamp = Some (timestamp d), dd_lat = Some (lat d), dd_lon = Some (lon d),
      dd_min_pressure_hpa = Some (min_pressure_hpa d), dd_max_wind_ms = Some (max_wind_ms d),
      dd_max_wind_kt = Some (max_wind_kt d), dd_confidence = Some (confidence d),
      dd_source = Some (source d), dd_track_probability = None,
      dd_threat_level = Some (threat_level d)\<rparr>"

text \<open>Rows of the tables \<^verbatim>\<open>detections\<close>, \<^verbatim>\<open>alerts\<close> and \<^verbatim>\<open>monitor_runs\<close>.\<close>

record detection_row =
  dr_detection :: det_dict
  dr_detection_time :: string

record alert_row =
  ar_detection_id :: nat
  ar_alert_type :: string
  ar_message :: string
  ar_recipients :: "string list"
  ar_sent_at :: string
  ar_status :: string

record monitor_run =
  mr_run_time :: "string option"
  mr_data_source :: "string option"
  mr_detections_count :: nat
  mr_alerts_sent :: nat
  mr_duration_seconds :: "real option"
  mr_status :: "string option"
  mr_error :: "string option"

record cyclone_db =
  detections :: "detection_row list"
  alerts :: "alert_row list"
  monitor_runs :: "monitor_run list"

text \<open>
  \<^verbatim>\<open>CycloneDatabase.save_detection\<close>. The columns \<^verbatim>\<open>timestamp\<close>, \<^verbatim>\<open>lat\<close> and
  \<^verbatim>\<open>lon\<close> are \<^verbatim>\<open>NOT NULL\<close>: a dictionary without one of them makes the insert
  raise. The id returned is the row number; \<^verbatim>\<open>source\<close> defaults to \<^verbatim>\<open>unknown\<close>.
  The function opens its connection, executes the insert, commits and closes, with no
  \<^verbatim>\<open>finally\<close>: when the insert raises, the connection is neither rolled back nor
  closed, and while the exception is being handled it stays alive and keeps the write
  lock of the database file. \<open>Inl\<close> is that outcome.
\<close>

definition save_detection :: "cyclone_db \<Rightarrow> det_dict \<Rightarrow> string \<Rightarrow> string + (nat \<times> cyclone_db)" where
  "save_detection db det now =
     (if dd_timestamp det = None then Inl ''NOT NULL constraint failed: detections.timestamp''
      else if dd_lat det = None then Inl ''NOT NULL constraint failed: detections.lat''
      else if dd_lon det = None then Inl ''NOT NULL constraint failed: detections.lon''
      else Inr (Suc (length (detections db)),
                db\<lparr>detections := detections db @
                     [\<lparr>dr_detection = det\<lparr>dd_source := Some (get_default (dd_source det) ''unknown'')\<rparr>,
                       dr_detection_time = now\<rparr>]\<rparr>))"

text \<open>\<^verbatim>\<open>CycloneDatabase.save_alert\<close>.\<close>

definition save_alert :: "cyclone_db \<Rightarrow> alert_row \<Rightarrow> nat \<times> cyclone_db" where
  "save_alert db alert = (Suc (length (alerts db)), db\<lparr>alerts := alerts db @ [alert]\<rparr>)"

record run_data =
  rd_run_time :: "string option"
  rd_data_source :: "string option"
  rd_detections_count :: "nat option"
  rd_alerts_sent :: "nat option"
  rd_duration_seconds :: "real option"
  rd_status :: "string option"
  rd_error :: "string option"

text \<open>
  \<^verbatim>\<open>CycloneDatabase.log_run\<close>. It opens a connection of its own; while another
  connection holds the write lock (\<open>write_locked\<close>), its insert waits for the timeout
  and raises \<^verbatim>\<open>OperationalError: database is locked\<close>.
\<close>

definition log_run :: "bool \<Rightarrow> cyclone_db \<Rightarrow> run_data \<Rightarrow> string + cyclone_db" where
  "log_run write_locked db rd =
     (if write_locked then Inl ''database is locked''
      else Inr (db\<lparr>monitor_runs := monitor_runs db @
                  [\<lparr>mr_run_time = rd_run_time rd,
                    mr_data_source = rd_data_source rd,
                    mr_detections_count = get_default (rd_detections_count rd) 0,
                    mr_alerts_sent = get_default (rd_alerts_sent rd) 0,
                    mr_duration_seconds = rd_duration_seconds rd,
                    mr_status = rd_status rd,
                    mr_error = rd_error rd\<rparr>]\<rparr>))"

subsection \<open>The alert system\<close>

record monitor_config =
  use_era5_rt :: bool
  use_fnv3 :: bool
  high_probability_threshold :: real

definition CONFIG_monitor :: monitor_config where
  "CONFIG_monitor = \<lparr>use_era5_rt = True, use_fnv3 = True, high_probability_threshold = 0.7\<rparr>"

text \<open>
  \<^verbatim>\<open>AlertSystem.check_and_alert\<close>. The text of the message is built by
  \<^verbatim>\<open>_build_alert_message\<close> from formatted numbers; it is the parameter \<open>build_message\<close>.
\<close>

definition check_and_alert ::
  "monitor_config \<Rightarrow> (det_dict \<Rightarrow> string) \<Rightarrow> cyclone_db \<Rightarrow> det_dict \<Rightarrow> nat \<Rightarrow> string
     \<Rightarrow> bool \<times> cyclone_db" where
  "check_and_alert cfg build_message db det detection_id now =
     (if get_default (dd_confidence det) 0 < high_probability_threshold cfg then (False, db)
      else (True,
            snd (save_alert db
                   \<lparr>ar_detection_id = detection_id,
                    ar_alert_type = ''cyclone_warning'',
                    ar_message = build_message det,
                    ar_recipients = [],
                    ar_sent_at = now,
                    ar_status = ''logged''\<rparr>)))"

subsection \<open>One cycle\<close>

text \<open>
  What a cycle reads from the outside. A call that can raise is given by its outcome,
  \<open>Inl\<close> carrying the text of the exception: the FNV3 fetch; the ERA5 download followed
  by the opening of the file (\<open>Inr None\<close>: no file; \<open>Inr (Some ds)\<close>: the file, with the
  dataset it holds or \<^verbatim>\<open>None\<close> if it cannot be opened); and, for the detection at
  position \<open>k\<close>, an exception raised by \<^verbatim>\<open>check_and_alert\<close> before it writes
  (\<open>io_alert_fault k\<close>). The failing insert of \<^verbatim>\<open>save_detection\<close> is computed by the
  model itself.
\<close>

record cycle_io =
  io_run_start :: string
  io_run_duration :: real
  io_fnv3 :: "string + det_dict list"
  io_era5 :: "string + era5_step list option option"
  io_now_saved :: "nat \<Rightarrow> string"
  io_now_alert :: "nat \<Rightarrow> string"
  io_alert_fault :: "nat \<Rightarrow> string option"

text \<open>\<^verbatim>\<open>",".join(data_sources)\<close>.\<close>

fun join_comma :: "string list \<Rightarrow> string" where
  "join_comma [] = []"
| "join_comma [s] = s"
| "join_comma (s # t # rest) = s @ '','' @ join_comma (t # rest)"

text \<open>
  The state of the \<^verbatim>\<open>try\<close> block: the detections gathered, the names of the sources
  that delivered some, the count of alerts and the database. An exception leaves the block
  with its text, with the sources and the database as they then are, and with the write
  lock held or not.
\<close>

record cycle_state =
  all_detections :: "det_dict list"
  data_sources :: "string list"
  alerts_sent :: nat
  cdb :: cyclone_db

type_synonym cycle_abort = "string \<times> cycle_state \<times> bool"

text \<open>Step 1, the FNV3 forecasts, and step 2, the ERA5 analysis.\<close>

definition fetch_fnv3 :: "monitor_config \<Rightarrow> cycle_io \<Rightarrow> cycle_state \<Rightarrow> cycle_abort + cycle_state" where
  "fetch_fnv3 cfg io st =
     (if use_fnv3 cfg then
        (case io_fnv3 io of
           Inl e \<Rightarrow> Inl (e, st, False)
         | Inr fnv3_detections \<Rightarrow>
             Inr (st\<lparr>all_detections := all_detections st @ fnv3_detections,
                     data_sources := (if fnv3_detections \<noteq> [] then data_sources st @ [''fnv3'']
                                      else data_sources st)\<rparr>))
      else Inr st)"

definition analyse_era5 :: "monitor_config \<Rightarrow> cycle_io \<Rightarrow> cycle_state \<Rightarrow> cycle_abort + cycle_state" where
  "analyse_era5 cfg io st =
     (if use_era5_rt cfg then
        (case io_era5 io of
           Inl e \<Rightarrow> Inl (e, st, False)
         | Inr None \<Rightarrow> Inr st
         | Inr (Some era5_file) \<Rightarrow>
             (let era5_detections =
                    map of_era5 (detect_from_era5 CONFIG_detection CONFIG_region era5_file)
              in Inr (st\<lparr>all_detections := all_detections st @ era5_detections,
                         data_sources := (if era5_detections \<noteq> [] then data_sources st @ [''era5'']
                                          else data_sources st)\<rparr>)))
      else Inr st)"

text \<open>Step 3, the loop that saves each detection and checks it for an alert.\<close>

fun save_and_alert ::
  "monitor_config \<Rightarrow> (det_dict \<Rightarrow> string) \<Rightarrow> cycle_io \<Rightarrow> nat \<Rightarrow> det_dict list \<Rightarrow> cycle_state
     \<Rightarrow> cycle_abort + cycle_state" where
  "save_and_alert cfg build_message io k [] st = Inr st"
| "save_and_alert cfg build_message io k (det # rest) st =
     (case save_detection (cdb st) det (io_now_saved io k) of
        Inl e \<Rightarrow> Inl (e, st, True)
      | Inr (detection_id, db1) \<Rightarrow>
          (case io_alert_fault io k of
             Some e \<Rightarrow> Inl (e, st\<lparr>cdb := db1\<rparr>, False)
           | None \<Rightarrow>
               (case check_and_alert cfg build_message db1 det detection_id (io_now_alert io k) of
                  (alerted, db2) \<Rightarrow>
                    save_and_alert cfg build_message io (Suc k) rest
                      (st\<lparr>cdb := db2,
                          alerts_sent := (if alerted then alerts_sent st + 1 else alerts_sent st)\<rparr>))))"

text \<open>The three steps in sequence: the part of the \<^verbatim>\<open>try\<close> block before the run is logged.\<close>

definition cycle_steps ::
  "monitor_config \<Rightarrow> (det_dict \<Rightarrow> string) \<Rightarrow> cycle_io \<Rightarrow> cyclone_db \<Rightarrow> cycle_abort + cycle_state" where
  "cycle_steps cfg build_message io db =
     (case fetch_fnv3 cfg io \<lparr>all_detections = [], data_sources = [], alerts_sent = 0, cdb = db\<rparr> of
        Inl a \<Rightarrow> Inl a
      | Inr st1 \<Rightarrow>
          (case analyse_era5 cfg io st1 of
             Inl a \<Rightarrow> Inl a
           | Inr st2 \<Rightarrow> save_and_alert cfg build_message io 0 (all_detections st2) st2))"

text \<open>The dictionary \<^verbatim>\<open>run_once\<close> returns.\<close>

datatype run_result = RunSuccess nat nat real | RunError string

text \<open>
  The handler of \<^verbatim>\<open>run_once\<close>: it logs the run as an error and returns the error
  result. When its own \<^verbatim>\<open>log_run\<close> raises, nothing catches that exception and
  \<^verbatim>\<open>run_once\<close> raises (\<open>Inl\<close>, with the database as it is).
\<close>

definition run_handler ::
  "cycle_io \<Rightarrow> string \<Rightarrow> cycle_state \<Rightarrow> bool \<Rightarrow> (string \<times> cyclone_db) + (run_result \<times> cyclone_db)" where
  "run_handler io e st write_locked =
     (case log_run write_locked (cdb st)
             \<lparr>rd_run_time = Some (io_run_start io),
              rd_data_source = Some (join_comma (data_sources st)),
              rd_detections_count = None,
              rd_alerts_sent = None,
              rd_duration_seconds = None,
              rd_status = Some ''error'',
              rd_error = Some e\<rparr> of
        Inl e' \<Rightarrow> Inl (e', cdb st)
      | Inr db' \<Rightarrow> Inr (RunError e, db'))"

text \<open>
  \<^verbatim>\<open>RealtimeCycloneMonitor.run_once\<close>: the steps, then the run logged as a success, all
  inside the \<^verbatim>\<open>try\<close>; any exception goes to the handler.
\<close>

definition run_once ::
  "monitor_config \<Rightarrow> (det_dict \<Rightarrow> string) \<Rightarrow> cycle_io \<Rightarrow> cyclone_db
     \<Rightarrow> (string \<times> cyclone_db) + (run_result \<times> cyclone_db)" where
  "run_once cfg build_message io db =
     (case cycle_steps cfg build_message io db of
        Inr st \<Rightarrow>
          (case log_run False (cdb st)
                  \<lparr>rd_run_time = Some (io_run_start io),
                   rd_data_source = Some (join_comma (data_sources st)),
                   rd_detections_count = Some (length (all_detections st)),
                   rd_alerts_sent = Some (alerts_sent st),
                   rd_duration_seconds = Some (io_run_duration io),
                   rd_status = Some ''success'',
                   rd_error = None\<rparr> of
             Inr db' \<Rightarrow>
               Inr (RunSuccess (length (all_detections st)) (alerts_sent st) (io_run_duration io), db')
           | Inl e \<Rightarrow> run_handler io e st False)
      | Inl (e, st, write_locked) \<Rightarrow> run_handler io e st write_locked)"

subsection \<open>Cycles as concrete input\<close>

definition empty_cyclone_db :: cyclone_db where
  "empty_cyclone_db = \<lparr>detections = [], alerts = [], monitor_runs = []\<rparr>"

definition plain_message :: "det_dict \<Rightarrow> string" where
  "plain_message det = ''CYCLONE ALERT: '' @ get_default (dd_threat_level det) ''TD''"

text \<open>A quiet cycle: no forecast, no file.\<close>

definition quiet_io :: cycle_io where
  "quiet_io =
     \<lparr>io_run_start = ''2026-11-03T06:00:00'', io_run_duration = 1.5,
      io_fnv3 = Inr [], io_era5 = Inr None,
      io_now_saved = (\<lambda>k. ''2026-11-03T06:00:01''), io_now_alert = (\<lambda>k. ''2026-11-03T06:00:01''),
      io_alert_fault = (\<lambda>k. None)\<rparr>"

text \<open>A cycle whose ERA5 file holds the dataset \<open>border_step\<close>.\<close>

definition storm_io :: cycle_io where
  "storm_io = quiet_io\<lparr>io_era5 := Inr (Some (Some [border_step]))\<rparr>"

text \<open>A cycle whose FNV3 fetch raises.\<close>

definition broken_io :: cycle_io where
  "broken_io = quiet_io\<lparr>io_fnv3 := Inl ''No module named requests''\<rparr>"

text \<open>
  A cycle whose FNV3 forecast holds one system without latitude: the coordinates of the
  feature are \<^verbatim>\<open>[34.84, null]\<close>.
\<close>

definition nolat_detection :: det_dict where
  "nolat_detection =
     \<lparr>dd_timestamp = Some ''2026-11-03T06:00:00'', dd_lat = None, dd_lon = Some 34.84,
      dd_min_pressure_hpa = None, dd_max_wind_ms = None, dd_max_wind_kt = None,
      dd_confidence = Some 0.8, dd_source = Some ''fnv3'', dd_track_probability = Some 0.8,
      dd_threat_level = Some ''TS''\<rparr>"

definition nolat_io :: cycle_io where
  "nolat_io = quiet_io\<lparr>io_fnv3 := Inr [nolat_detection]\<rparr>"

section \<open>Floods\<close>

subsection \<open>Aggregation of provider results: \<^verbatim>\<open>detection/flood_detector.py\<close>\<close>



type_synonym bbox = "real \<times> real \<times> real \<times> real"

definition CONFIG_regions :: "(string \<times> bbox \<times> string) list" where
  "CONFIG_regions =
     [(''mozambique'', (30.0, - 27.0, 41.0, - 10.0), ''Mozambique''),
      (''madagascar'', (43.0, - 26.0, 51.0, - 12.0), ''Madagascar''),
      (''malawi'', (32.5, - 17.0, 36.0, - 9.5), ''Malawi''),
      (''zimbabwe'', (25.0, - 22.5, 33.0, - 15.5), ''Zimbabwe'')]"

text \<open>
  A GeoJSON feature, by its geometry and the properties the detector reads or writes. A
  ring is a list of \<open>(lon, lat)\<close> positions.
\<close>

datatype geometry = Polygon "(real \<times> real) list list" | Point real real

record flood_feature =
  ft_geometry :: geometry
  ft_area_km2 :: "real option"
  ft_severity :: "string option"
  ft_source :: "string option"

text \<open>A flood of the VIIRS client: a point with properties.\<close>

record viirs_flood =
  vf_lat :: real
  vf_lon :: real
  vf_area_km2 :: "real option"
  vf_severity :: "string option"

text \<open>The name of the region: a configured name, a cyclone buffer or a custom box.\<close>

datatype region_name = Configured string | Cyclone_buffer real real | Custom_region

text \<open>
  The choice of the bounding box at the head of \<^verbatim>\<open>detect_floods\<close>; \<^verbatim>\<open>None\<close> is the
  early return of the empty dictionary.
\<close>

definition choose_bbox ::
  "string option \<Rightarrow> bbox option \<Rightarrow> (real \<times> real) option \<Rightarrow> (bbox \<times> region_name) option" where
  "choose_bbox region_key box cyclone_location =
     (case (case region_key of None \<Rightarrow> None | Some k \<Rightarrow> map_of CONFIG_regions k) of
        Some (b, name) \<Rightarrow> Some (b, Configured name)
      | None \<Rightarrow>
          (case cyclone_location of
             Some (la, lo) \<Rightarrow> Some ((lo - 5, la - 5, lo + 5, la + 5), Cyclone_buffer la lo)
           | None \<Rightarrow>
               (case box of
                  Some b \<Rightarrow> Some (b, Custom_region)
                | None \<Rightarrow> None)))"

text \<open>\<^verbatim>\<open>FloodDetector._get_max_severity\<close>.\<close>

definition severities :: "string list" where
  "severities = [''minor'', ''moderate'', ''major'', ''catastrophic'']"

fun index_of :: "string list \<Rightarrow> string \<Rightarrow> nat" where
  "index_of [] s = 0"
| "index_of (x # xs) s = (if x = s then 0 else Suc (index_of xs s))"

definition get_max_severity :: "flood_feature list \<Rightarrow> string" where
  "get_max_severity fs =
     severities !
       fold (\<lambda>f max_idx.
               (let sev = get_default (ft_severity f) ''minor''
                in if sev \<in> set severities then max max_idx (index_of severities sev) else max_idx))
            fs 0"

text \<open>The result of \<^verbatim>\<open>detect_floods\<close>: the metadata, the summary and the features.\<close>

record flood_collection =
  fc_region :: region_name
  fc_bbox :: bbox
  fc_sources :: "string list"
  fc_forecast :: "string option"
  fc_total_flooded_areas :: nat
  fc_total_area_km2 :: real
  fc_max_severity :: string
  fc_features :: "flood_feature list"

text \<open>
  \<^verbatim>\<open>FloodDetector.detect_floods\<close>. The three clients are collaborators of the detector;
  what each returns for this call is an argument, \<open>Inl\<close> when the call raises (each call
  has its own handler, which only logs). The SAR result is \<^verbatim>\<open>None\<close> when it is empty
  or has no features. Writing the result to a file is left out.
\<close>

definition detect_floods ::
  "string option \<Rightarrow> bbox option \<Rightarrow> (real \<times> real) option
     \<Rightarrow> string + flood_feature list option \<Rightarrow> string + viirs_flood list \<Rightarrow> string + string
     \<Rightarrow> flood_collection option" where
  "detect_floods region_key box cyclone_location sar_result viirs_floods glofas_forecast =
     (case choose_bbox region_key box cyclone_location of
        None \<Rightarrow> None
      | Some (b, name) \<Rightarrow>
          (let (features1, sources1) =
                 (case sar_result of
                    Inr (Some sar_features) \<Rightarrow>
                      (map (\<lambda>f. f\<lparr>ft_source := Some ''Sentinel-1 SAR''\<rparr>) sar_features, [''Sentinel-1''])
                  | _ \<Rightarrow> ([], []));
               (features2, sources2) =
                 (case viirs_floods of
                    Inr floods \<Rightarrow>
                      (features1 @
                         map (\<lambda>fl. \<lparr>ft_geometry = Point (vf_lon fl) (vf_lat fl),
                                     ft_area_km2 = vf_area_km2 fl,
                                     ft_severity = vf_severity fl,
                                     ft_source = Some ''VIIRS NRT''\<rparr>) floods,
                       sources1 @ [''VIIRS''])
                  | Inl e \<Rightarrow> (features1, sources1));
               (forecast, sources3) =
                 (case glofas_forecast of
                    Inr fc \<Rightarrow> (Some fc, sources2 @ [''GLOFAS''])
                  | Inl e \<Rightarrow> (None, sources2))
           in Some \<lparr>fc_region = name,
                    fc_bbox = b,
                    fc_sources = sources3,
                    fc_forecast = forecast,
                    fc_total_flooded_areas = length features2,
                    fc_total_area_km2 = sum_list (map (\<lambda>f. get_default (ft_area_km2 f) 0) features2),
                    fc_max_severity = get_max_severity features2,
                    fc_features = features2\<rparr>))"

text \<open>The features of a result, none for the empty dictionary.\<close>

definition features_of :: "flood_collection option \<Rightarrow> flood_feature list" where
  "features_of r = (case r of None \<Rightarrow> [] | Some c \<Rightarrow> fc_features c)"

subsection \<open>Floods: concrete inputs\<close>


subsection \<open>The clients bundled with the flood detector\<close>

text \<open>
  \<^verbatim>\<open>SentinelHubClient._simulate_flood_detection\<close> and
  \<^verbatim>\<open>VIIRSFloodClient._simulate_viirs_floods\<close>. The two clients that
  \<^verbatim>\<open>FloodDetector.__init__\<close> builds are placeholders (\<^verbatim>\<open>Sentinel Hub Process API request
  would go here\<close>, \<^verbatim>\<open>Simulate for now\<close>) and return these simulations on every call;
  the arguments \<open>r\<close> are the draws of \<^verbatim>\<open>np.random.random()\<close>, in \<open>[0, 1)\<close>.
\<close>

definition simulate_flood_detection :: "bbox \<Rightarrow> real \<Rightarrow> flood_feature list" where
  "simulate_flood_detection b r_area =
     (case b of (w, s, e, n) \<Rightarrow>
        (let center_lon = (w + e) / 2; center_lat = (s + n) / 2
         in [\<lparr>ft_geometry =
                 Polygon [ [(center_lon - 0.5, center_lat - 0.3),
                           (center_lon + 0.5, center_lat - 0.3),
                           (center_lon + 0.3, center_lat + 0.5),
                           (center_lon - 0.3, center_lat + 0.4),
                           (center_lon - 0.5, center_lat - 0.3)] ],
               ft_area_km2 = Some (50 + r_area * 200),
               ft_severity = Some ''major'',
               ft_source = None\<rparr>]))"

definition simulate_viirs_floods :: "bbox \<Rightarrow> real \<Rightarrow> real \<Rightarrow> real \<Rightarrow> viirs_flood list" where
  "simulate_viirs_floods b r_lat r_lon r_area =
     (case b of (w, s, e, n) \<Rightarrow>
        [\<lparr>vf_lat = (s + n) / 2 + r_lat * 2 - 1,
          vf_lon = (w + e) / 2 + r_lon * 2 - 1,
          vf_area_km2 = Some (25 + r_area * 100),
          vf_severity = None\<rparr>])"

section \<open>Verified properties\<close>

subsection \<open>Gridded detection: evaluation and field lemmas\<close>

lemmas detect_eval_defs = detect_from_era5_def List.map_filter_def detect_step_def nanmin_def nanmax_def
  nanargmin_2d_def index_opt_def wind_speed_def CONFIG_detection_def CONFIG_region_def Let_def
  calculate_confidence_def get_threat_level_def

lemma detect_border_step:
  "detect_from_era5 CONFIG_detection CONFIG_region (Some [border_step]) = [border_detection]"
  by (simp add: detect_eval_defs border_step_def border_detection_def)

lemma detect_deep_low_step:
  "detect_from_era5 CONFIG_detection CONFIG_region (Some [deep_low_step]) = [deep_low_detection]"
  by (simp add: detect_eval_defs deep_low_step_def deep_low_detection_def)

lemma detect_shallow_step:
  "detect_from_era5 CONFIG_detection CONFIG_region (Some [shallow_step]) = [shallow_detection]"
  by (simp add: detect_eval_defs shallow_step_def shallow_detection_def)

lemma detect_kt_64_step:
  "detect_from_era5 CONFIG_detection CONFIG_region (Some [kt_64_step]) = [kt_64_detection]"
  by (simp add: detect_eval_defs kt_64_step_def kt_64_detection_def)

lemma detect_kt_63_9_step:
  "detect_from_era5 CONFIG_detection CONFIG_region (Some [kt_63_9_step]) = [kt_63_9_detection]"
  by (simp add: detect_eval_defs kt_63_9_step_def kt_63_9_detection_def)

lemma fold_max_ge: "(x::real) \<le> fold max xs x"
proof (induction xs arbitrary: x)
  case Nil
  show ?case by simp
next
  case (Cons y ys)
  have "x \<le> max y x" by simp
  also have "\<dots> \<le> fold max ys (max y x)" by (rule Cons.IH)
  finally show ?case by simp
qed

lemma wind_speed_nonneg: "x \<in> set (concat (wind_speed u v)) \<Longrightarrow> 0 \<le> x"
  by (auto simp: wind_speed_def)

lemma nanmax_wind_nonneg:
  assumes "nanmax (wind_speed u v) = Some m"
  shows "0 \<le> m"
proof -
  from assms obtain x xs where c: "concat (wind_speed u v) = x # xs" and m: "m = fold max xs x"
    by (auto simp: nanmax_def split: list.splits)
  have "x \<in> set (concat (wind_speed u v))" unfolding c by simp
  then have "0 \<le> x" by (rule wind_speed_nonneg)
  also have "x \<le> m" unfolding m by (rule fold_max_ge)
  finally show ?thesis .
qed

lemma detect_step_fields:
  assumes "detect_step cfg reg st = Some d"
  shows "max_wind_kt d = max_wind_ms d * 1.944"
    and "threat_level d = get_threat_level (max_wind_ms d)"
    and "confidence d = calculate_confidence (min_pressure_hpa d) (max_wind_ms d)"
    and "min_pressure_hpa d < cfg_min_pressure_hpa cfg"
    and "cfg_min_wind_ms cfg \<le> max_wind_ms d"
  using assms
  by (auto simp: detect_step_def Let_def split: option.splits if_splits prod.splits)

lemma detect_step_wind_nonneg:
  assumes "detect_step cfg reg st = Some d"
  shows "0 \<le> max_wind_ms d"
  using assms nanmax_wind_nonneg
  by (auto simp: detect_step_def Let_def split: option.splits if_splits prod.splits)

lemma detect_from_era5_mem:
  "d \<in> set (detect_from_era5 cfg reg ds) \<Longrightarrow> \<exists>st. detect_step cfg reg st = Some d"
  by (auto simp: detect_from_era5_def List.map_filter_def split: option.splits)

lemma get_threat_level_spec: "get_threat_level w = spec_saffir_simpson (w * 1.944)"
  by (simp add: get_threat_level_def spec_saffir_simpson_def Let_def)

lemma confidence_agrees:
  "980 \<le> p \<or> 33 \<le> w \<Longrightarrow> calculate_confidence p w = spec_confidence p w" if "0 \<le> w"
  using that
  by (auto simp: calculate_confidence_def spec_confidence_def clip_def Let_def min_def max_def field_simps)

lemma confidence_exceeds:
  "p < 980 \<Longrightarrow> w < 33 \<Longrightarrow> 0 \<le> w \<Longrightarrow> spec_confidence p w < calculate_confidence p w"
  by (auto simp: calculate_confidence_def spec_confidence_def clip_def Let_def min_def max_def field_simps)

subsection \<open>C3: confidence of a gridded detection\<close>

text \<open>
  C3, as stated, fails: the dataset \<open>deep_low_step\<close> (950 hPa, 20 m/s) passes both
  thresholds and is emitted with confidence 1, while the specification's formula
  \<open>clip((1010 - p)/30, 0, 1) * 0.5 + clip(w/33, 0, 1) * 0.5\<close> gives 53/66.
\<close>

theorem C3_counterexample:
  "detect_from_era5 CONFIG_detection CONFIG_region (Some [deep_low_step]) = [deep_low_detection]
   \<and> confidence deep_low_detection
       \<noteq> spec_confidence (min_pressure_hpa deep_low_detection) (max_wind_ms deep_low_detection)"
  by (simp add: detect_deep_low_step) (simp add: deep_low_detection_def spec_confidence_def clip_def)

text \<open>
  C3, amended: every detection emitted by the gridded detector has confidence
  \<open>min(1, (max(0, (1010 - p)/30) + min(1, w/33)) / 2)\<close>, where \<open>p\<close> is its minimum
  pressure in hPa and \<open>w\<close> its maximum wind in m/s. This equals the specification's
  formula whenever \<open>p \<ge> 980\<close> or \<open>w \<ge> 33\<close>, and is strictly greater than it when
  \<open>p < 980\<close> and \<open>w < 33\<close> (the pressure factor is not capped at 1; only the mean is).
\<close>

theorem C3_confidence_amended:
  assumes "d \<in> set (detect_from_era5 cfg reg ds)"
  shows "confidence d =
           min 1 ((max 0 ((1010 - min_pressure_hpa d) / 30) + min 1 (max_wind_ms d / 33)) / 2)
       \<and> (980 \<le> min_pressure_hpa d \<or> 33 \<le> max_wind_ms d
            \<longrightarrow> confidence d = spec_confidence (min_pressure_hpa d) (max_wind_ms d))
       \<and> (min_pressure_hpa d < 980 \<and> max_wind_ms d < 33
            \<longrightarrow> spec_confidence (min_pressure_hpa d) (max_wind_ms d) < confidence d)"
proof -
  from assms obtain st where st: "detect_step cfg reg st = Some d"
    by (blast dest: detect_from_era5_mem)
  have c: "confidence d = calculate_confidence (min_pressure_hpa d) (max_wind_ms d)"
    by (rule detect_step_fields(3) [OF st])
  have w: "0 \<le> max_wind_ms d" by (rule detect_step_wind_nonneg [OF st])
  have "confidence d =
           min 1 ((max 0 ((1010 - min_pressure_hpa d) / 30) + min 1 (max_wind_ms d / 33)) / 2)"
    unfolding c by (simp add: calculate_confidence_def Let_def)
  moreover have "980 \<le> min_pressure_hpa d \<or> 33 \<le> max_wind_ms d
            \<longrightarrow> confidence d = spec_confidence (min_pressure_hpa d) (max_wind_ms d)"
    unfolding c using confidence_agrees [OF w] by blast
  moreover have "min_pressure_hpa d < 980 \<and> max_wind_ms d < 33
            \<longrightarrow> spec_confidence (min_pressure_hpa d) (max_wind_ms d) < confidence d"
    unfolding c using confidence_exceeds [OF _ _ w] by blast
  ultimately show ?thesis by blast
qed

text \<open>C3, amended, at \<open>deep_low_step\<close> (below 980 hPa) and \<open>shallow_step\<close> (990 hPa).\<close>

theorem C3_confidence_amended_witness:
  "confidence deep_low_detection = 1
   \<and> spec_confidence (min_pressure_hpa deep_low_detection) (max_wind_ms deep_low_detection)
       < confidence deep_low_detection
   \<and> confidence shallow_detection
       = spec_confidence (min_pressure_hpa shallow_detection) (max_wind_ms shallow_detection)"
proof -
  have a: "deep_low_detection \<in> set (detect_from_era5 CONFIG_detection CONFIG_region (Some [deep_low_step]))"
    by (simp add: detect_deep_low_step)
  have b: "shallow_detection \<in> set (detect_from_era5 CONFIG_detection CONFIG_region (Some [shallow_step]))"
    by (simp add: detect_shallow_step)
  have lo: "min_pressure_hpa deep_low_detection < 980 \<and> max_wind_ms deep_low_detection < 33"
    by (simp add: deep_low_detection_def)
  have hi: "980 \<le> min_pressure_hpa shallow_detection \<or> 33 \<le> max_wind_ms shallow_detection"
    by (simp add: shallow_detection_def)
  have "confidence deep_low_detection = 1" by (simp add: deep_low_detection_def)
  moreover from C3_confidence_amended [OF a] lo
  have "spec_confidence (min_pressure_hpa deep_low_detection) (max_wind_ms deep_low_detection)
          < confidence deep_low_detection"
    by blast
  moreover from C3_confidence_amended [OF b] hi
  have "confidence shallow_detection
          = spec_confidence (min_pressure_hpa shallow_detection) (max_wind_ms shallow_detection)"
    by blast
  ultimately show ?thesis by blast
qed

subsection \<open>C4: threat level and stored wind in knots\<close>

text \<open>
  C4, as stated, fails: the dataset \<open>border_step\<close> (32.922 m/s) is emitted with
  \<open>max_wind_kt = 64.000368\<close>, which is not \<open>32.922 * 1.9438\<close>, and with threat level
  CAT1, while the table applied to \<open>32.922 * 1.9438 = 63.99...\<close> gives TS.
\<close>

theorem C4_counterexample:
  "detect_from_era5 CONFIG_detection CONFIG_region (Some [border_step]) = [border_detection]
   \<and> max_wind_kt border_detection \<noteq> max_wind_ms border_detection * 1.9438
   \<and> threat_level border_detection \<noteq> spec_saffir_simpson (max_wind_ms border_detection * 1.9438)"
  by (simp add: detect_border_step) (simp add: border_detection_def spec_saffir_simpson_def)

text \<open>
  C4, amended: every detection emitted by the gridded detector stores
  \<open>max_wind_kt = max_wind_ms * 1.944\<close>, and its threat level is the wind-class table of
  section 4.3.1 (at least 137 CAT5, 113 CAT4, 96 CAT3, 83 CAT2, 64 CAT1, 34 TS, else TD)
  applied to that stored value; a stored 64.0 kt is CAT1 and a stored 63.9 kt is TS.
\<close>

theorem C4_threat_level_amended:
  assumes "d \<in> set (detect_from_era5 cfg reg ds)"
  shows "max_wind_kt d = max_wind_ms d * 1.944
       \<and> threat_level d = spec_saffir_simpson (max_wind_kt d)
       \<and> (max_wind_kt d = 64.0 \<longrightarrow> threat_level d = ''CAT1'')
       \<and> (max_wind_kt d = 63.9 \<longrightarrow> threat_level d = ''TS'')"
proof -
  from assms obtain st where st: "detect_step cfg reg st = Some d"
    by (blast dest: detect_from_era5_mem)
  have k: "max_wind_kt d = max_wind_ms d * 1.944" by (rule detect_step_fields(1) [OF st])
  have t: "threat_level d = spec_saffir_simpson (max_wind_kt d)"
    unfolding k detect_step_fields(2) [OF st] by (rule get_threat_level_spec)
  have "max_wind_kt d = 64.0 \<longrightarrow> threat_level d = ''CAT1''"
    unfolding t by (simp add: spec_saffir_simpson_def)
  moreover have "max_wind_kt d = 63.9 \<longrightarrow> threat_level d = ''TS''"
    unfolding t by (simp add: spec_saffir_simpson_def)
  ultimately show ?thesis using k t by blast
qed

text \<open>
  C4, amended, at the detections of \<open>border_step\<close>, \<open>kt_64_step\<close> and
  \<open>kt_63_9_step\<close>.
\<close>

theorem C4_threat_level_amended_witness:
  "max_wind_kt border_detection = max_wind_ms border_detection * 1.944
   \<and> threat_level border_detection = spec_saffir_simpson (max_wind_kt border_detection)
   \<and> max_wind_kt kt_64_detection = 64.0 \<and> threat_level kt_64_detection = ''CAT1''
   \<and> max_wind_kt kt_63_9_detection = 63.9 \<and> threat_level kt_63_9_detection = ''TS''"
proof -
  have a: "border_detection \<in> set (detect_from_era5 CONFIG_detection CONFIG_region (Some [border_step]))"
    by (simp add: detect_border_step)
  have b: "kt_64_detection \<in> set (detect_from_era5 CONFIG_detection CONFIG_region (Some [kt_64_step]))"
    by (simp add: detect_kt_64_step)
  have c: "kt_63_9_detection
             \<in> set (detect_from_era5 CONFIG_detection CONFIG_region (Some [kt_63_9_step]))"
    by (simp add: detect_kt_63_9_step)
  have k64: "max_wind_kt kt_64_detection = 64.0" by (simp add: kt_64_detection_def)
  have k639: "max_wind_kt kt_63_9_detection = 63.9" by (simp add: kt_63_9_detection_def)
  from C4_threat_level_amended [OF b] k64 have "threat_level kt_64_detection = ''CAT1''" by blast
  moreover from C4_threat_level_amended [OF c] k639
  have "threat_level kt_63_9_detection = ''TS''" by blast
  ultimately show ?thesis using C4_threat_level_amended [OF a] k64 k639 by blast
qed

subsection \<open>Rounding\<close>

lemma round_half_even_error: "\<bar>of_int (round_half_even y) - y\<bar> \<le> 1 / 2"
  unfolding round_half_even_def Let_def
  by (auto simp: abs_real_def) linarith+

lemma py_round3_error: "\<bar>py_round x 3 - x\<bar> \<le> 1 / 2000"
proof -
  have "\<bar>of_int (round_half_even (x * 1000)) - x * 1000\<bar> \<le> 1 / 2"
    by (rule round_half_even_error)
  then show ?thesis by (simp add: py_round_def field_simps abs_real_def split: if_splits)
qed


subsection \<open>Landslide cell risk\<close>

lemma slope_factor_spec: "slope_factor CONFIG_thresholds s = spec_slope_factor s"
  by (simp add: slope_factor_def spec_slope_factor_def CONFIG_thresholds_def)

lemma rain_factor_spec: "rain_factor CONFIG_thresholds r = spec_rain_factor r"
  by (simp add: rain_factor_def spec_rain_factor_def CONFIG_thresholds_def)

lemma classify_score_spec: "classify_score x = spec_risk_level x"
  by (simp add: classify_score_def spec_risk_level_def)

lemma sqrt_tenth_bounds: "316 / 1000 < sqrt (1 / 10)" "sqrt (1 / 10) < 3165 / 10000"
  by (rule real_less_rsqrt, simp add: power2_eq_square)
     (rule real_less_lsqrt, simp_all add: power2_eq_square)

lemma floor_sqrt_tenth: "\<lfloor>sqrt (1 / 10) * 1000\<rfloor> = 316"
  using sqrt_tenth_bounds by (simp add: floor_eq_iff)

lemmas cell_eval_defs = calculate_cell_risk_def slope_factor_def rain_factor_def
  CONFIG_thresholds_def classify_score_def Let_def py_round_def round_half_even_def

lemma cell_15_100: "calculate_cell_risk CONFIG_thresholds 15 100 = (''HIGH'', 0.5)"
  by (simp add: cell_eval_defs real_sqrt_divide)

lemma cell_10_100: "calculate_cell_risk CONFIG_thresholds 10 100 = (''MEDIUM'', 0.316)"
  using sqrt_tenth_bounds floor_sqrt_tenth by (simp add: cell_eval_defs)

subsection \<open>C6: landslide cell risk\<close>

text \<open>
  C6, as stated, fails: at slope 10 degrees and rainfall 100 mm the factors are 0.2 and 0.5,
  and the function returns the score 0.316, which is not \<open>sqrt (0.2 * 0.5)\<close>: the returned
  score is rounded to three decimals.
\<close>

theorem C6_counterexample:
  "calculate_cell_risk CONFIG_thresholds 10 100 = (''MEDIUM'', 0.316)
   \<and> snd (calculate_cell_risk CONFIG_thresholds 10 100)
       \<noteq> sqrt (spec_slope_factor 10 * spec_rain_factor 100)"
  using sqrt_tenth_bounds(1)
  by (simp add: cell_10_100 spec_slope_factor_def spec_rain_factor_def)

text \<open>
  C6, amended: with the configured thresholds, the cell-risk function takes the slope factor
  from \<open>{0.0, 0.2, 0.5, 0.8, 1.0}\<close> by the slope thresholds (below 10, from 10, from 15,
  from 25, from 35 degrees) and the rain factor by the rainfall thresholds (below 50, from 50,
  from 100, from 200, from 400 mm); it returns \<open>sqrt (slope_factor * rain_factor)\<close> rounded
  to three decimals (hence within 0.0005 of it), and the level classifies the unrounded
  square root: EXTREME from 0.8, HIGH from 0.5, MEDIUM from 0.3, LOW from 0.1, else MINIMAL.
  A cell at slope 15 and rain 100 yields score 0.5 and level HIGH.
\<close>

theorem C6_cell_risk_amended:
  assumes "calculate_cell_risk CONFIG_thresholds slope_deg rainfall_mm = (level, score)"
  shows "score = py_round (sqrt (spec_slope_factor slope_deg * spec_rain_factor rainfall_mm)) 3
       \<and> \<bar>score - sqrt (spec_slope_factor slope_deg * spec_rain_factor rainfall_mm)\<bar> \<le> 1 / 2000
       \<and> level = spec_risk_level (sqrt (spec_slope_factor slope_deg * spec_rain_factor rainfall_mm))
       \<and> (slope_deg = 15 \<and> rainfall_mm = 100 \<longrightarrow> score = 0.5 \<and> level = ''HIGH'')"
proof -
  let ?s = "sqrt (spec_slope_factor slope_deg * spec_rain_factor rainfall_mm)"
  from assms have sc: "score = py_round ?s 3" and lv: "level = spec_risk_level ?s"
    by (simp_all add: calculate_cell_risk_def Let_def slope_factor_spec rain_factor_spec
        classify_score_spec)
  have "\<bar>score - ?s\<bar> \<le> 1 / 2000" unfolding sc by (rule py_round3_error)
  moreover have "slope_deg = 15 \<and> rainfall_mm = 100 \<longrightarrow> score = 0.5 \<and> level = ''HIGH''"
    using assms cell_15_100 by auto
  ultimately show ?thesis using sc lv by blast
qed

text \<open>
  C6, amended, at the cells (10, 100) and (15, 100).
\<close>

theorem C6_cell_risk_amended_witness:
  "(0.316::real) = py_round (sqrt (spec_slope_factor 10 * spec_rain_factor 100)) 3
   \<and> ''MEDIUM'' = spec_risk_level (sqrt (spec_slope_factor 10 * spec_rain_factor 100))
   \<and> calculate_cell_risk CONFIG_thresholds 15 100 = (''HIGH'', 0.5)"
  using C6_cell_risk_amended [OF cell_10_100] C6_cell_risk_amended [OF cell_15_100] cell_15_100
  by blast

subsection \<open>Convergence\<close>







lemma check_cyclones_total:
  "\<forall>c\<in>set cs. geo (outbreak_loc ob) (cy_location c) \<noteq> None \<Longrightarrow>
   check_cyclones geo thr ob cs acc = Inr (acc @ List.map_filter (pair_convergence geo thr ob) cs)"
  by (induction cs arbitrary: acc)
     (auto simp: List.map_filter_def pair_convergence_def split: option.splits)

lemma check_outbreaks_total:
  "\<forall>ob\<in>set obs. \<forall>c\<in>set cs. geo (outbreak_loc ob) (cy_location c) \<noteq> None \<Longrightarrow>
   check_outbreaks geo thr obs cs acc =
     Inr (acc @ concat (map (\<lambda>ob. List.map_filter (pair_convergence geo thr ob) cs) obs))"
  by (induction obs arbitrary: acc) (simp_all add: check_cyclones_total)

lemma check_convergence_complete:
  assumes "\<forall>ob\<in>set obs. \<forall>c\<in>set cs. geo (outbreak_loc ob) (cy_location c) \<noteq> None"
    and "ob \<in> set obs" and "c \<in> set cs"
    and "geo (outbreak_loc ob) (cy_location c) = Some d" and "d < thr"
  shows "make_convergence ob c d \<in> set (check_convergence geo obs cs thr)"
proof -
  have "pair_convergence geo thr ob c = Some (make_convergence ob c d)"
    using assms(4,5) by (simp add: pair_convergence_def)
  then have "make_convergence ob c d \<in> set (List.map_filter (pair_convergence geo thr ob) cs)"
    using assms(3) by (force simp: List.map_filter_def)
  then show ?thesis
    using assms(2) by (auto simp: check_convergence_def check_outbreaks_total [OF assms(1)])
qed


subsection \<open>C2 and C5: risk score, priority and distance of a convergence\<close>









subsection \<open>Alert database\<close>

lemmas send_eval_defs = send_hazard_alert_def effective_countries_def log_sent_alert_def
  INSTITUTIONAL_RECIPIENTS_def build_cyclone_alert_def get_default_def test_hazard_def sample_env_def
  sample_md5_def Let_def

lemma run_10h:
  "send_hazard_alert sample_env io_10h empty_db test_hazard (Some [''mozambique'']) False
     = Inr ([''1b9d6bcd-bbf''], [(''mozambique'', email_10h)], db_after_10h)"
  by (simp add: send_eval_defs io_10h_def empty_db_def db_after_10h_def alert_10h_def email_10h_def
      mozambique_emails_def)

lemma run_11h:
  "send_hazard_alert sample_env io_11h db_after_10h test_hazard (Some [''mozambique'']) False
     = Inr ([''6ec0bd7f-11c''], [(''mozambique'', email_11h)], db_after_11h)"
  by (simp add: send_eval_defs io_11h_def db_after_10h_def db_after_11h_def alert_10h_def alert_11h_def
      email_11h_def mozambique_emails_def)

lemma log_sent_alert_Inr:
  assumes "log_sent_alert m io db ad = Inr (i, db')"
  shows "\<exists>row. sent_alerts db' = sent_alerts db @ [row]
           \<and> country row = ad_country ad \<and> hazard_id row = ad_hazard_id ad
           \<and> tracking_pixel_id row = take 16 (m (take 12 (io_uuid4 io) @ ''_'' @ io_now_token io))
           \<and> opened_at row = None"
    and "tracking_opens db' = tracking_opens db"
    and "i = take 12 (io_uuid4 io)"
  using assms by (auto simp: log_sent_alert_def Let_def split: if_splits)

lemma send_loop_rows:
  assumes "send_loop env io hz k cs (ids, built, db) = Inr (ids', built', db')"
    and "get_default (hz_type hz) ''cyclone'' = ''cyclone'' \<or> get_default (hz_type hz) ''cyclone'' = ''flood''"
  shows "\<exists>new. sent_alerts db' = sent_alerts db @ new
           \<and> map country new = filter known_country cs
           \<and> (\<forall>a\<in>set new. hazard_id a = hz_id hz)
           \<and> length ids' = length ids + length new"
  using assms
proof (induction cs arbitrary: k ids built db)
  case Nil
  then show ?case by simp
next
  case (Cons c cs)
  show ?case
  proof (cases "map_of INSTITUTIONAL_RECIPIENTS c")
    case None
    with Cons.prems have "send_loop env io hz (Suc k) cs (ids, built, db) = Inr (ids', built', db')"
      by simp
    from Cons.IH [OF this Cons.prems(2)] None show ?thesis by (simp add: known_country_def)
  next
    case (Some rcfg)
    from Cons.prems(1) Some Cons.prems(2) obtain i db1 ad built1
      where l: "log_sent_alert (md5_hexdigest env) (io k) db ad = Inr (i, db1)"
        and ad: "ad_country ad = c" "ad_hazard_id ad = hz_id hz"
        and r: "send_loop env io hz (Suc k) cs (ids @ [i], built1, db1) = Inr (ids', built', db')"
      by (fastforce simp: Let_def split: sum.splits if_splits)
    from log_sent_alert_Inr(1) [OF l] obtain row
      where row: "sent_alerts db1 = sent_alerts db @ [row]" "country row = c" "hazard_id row = hz_id hz"
      by (auto simp: ad)
    from Cons.IH [OF r Cons.prems(2)] obtain new
      where new: "sent_alerts db' = sent_alerts db1 @ new" "map country new = filter known_country cs"
        "\<forall>a\<in>set new. hazard_id a = hz_id hz" "length ids' = length (ids @ [i]) + length new"
      by blast
    have "sent_alerts db' = sent_alerts db @ (row # new)" using row(1) new(1) by simp
    moreover have "map country (row # new) = filter known_country (c # cs)"
      using row(2) new(2) Some by (simp add: known_country_def)
    moreover have "\<forall>a\<in>set (row # new). hazard_id a = hz_id hz" using row(3) new(3) by simp
    moreover have "length ids' = length ids + length (row # new)" using new(4) by simp
    ultimately show ?thesis by blast
  qed
qed

text \<open>
  The sender completes whenever the alert ids drawn in its passes are new to the table and
  differ from one another.
\<close>

lemma log_sent_alert_fresh:
  assumes "take 12 (io_uuid4 io) \<notin> set (map alert_id (sent_alerts db))"
  shows "\<exists>db'. log_sent_alert m io db ad = Inr (take 12 (io_uuid4 io), db')
               \<and> map alert_id (sent_alerts db')
                   = map alert_id (sent_alerts db) @ [take 12 (io_uuid4 io)]"
  using assms by (simp add: log_sent_alert_def Let_def)

lemma send_loop_completes:
  assumes "\<forall>j\<ge>k. take 12 (io_uuid4 (io j)) \<notin> set (map alert_id (sent_alerts db))"
    and "\<forall>i j. i \<noteq> j \<longrightarrow> take 12 (io_uuid4 (io i)) \<noteq> take 12 (io_uuid4 (io j))"
  shows "\<exists>r. send_loop env io hz k cs (ids, built, db) = Inr r"
  using assms
proof (induction cs arbitrary: k ids built db)
  case Nil
  show ?case by simp
next
  case (Cons c cs)
  have later: "\<forall>j\<ge>Suc k. take 12 (io_uuid4 (io j)) \<notin> set (map alert_id (sent_alerts db))"
    using Cons.prems(1) by auto
  have skip: "\<exists>r. send_loop env io hz (Suc k) cs (ids, built, db) = Inr r"
    by (rule Cons.IH [OF later Cons.prems(2)])
  show ?case
  proof (cases "map_of INSTITUTIONAL_RECIPIENTS c")
    case None
    with skip show ?thesis by simp
  next
    case (Some rcfg)
    have fresh: "take 12 (io_uuid4 (io k)) \<notin> set (map alert_id (sent_alerts db))"
      using Cons.prems(1) by auto
    have step: "\<exists>r. send_loop env io hz (Suc k) cs (ids', built', db') = Inr r"
      if "map alert_id (sent_alerts db')
            = map alert_id (sent_alerts db) @ [take 12 (io_uuid4 (io k))]" for ids' built' db'
    proof (rule Cons.IH [OF _ Cons.prems(2)], intro allI impI)
      fix j assume "Suc k \<le> j"
      then have "j \<noteq> k" and "k \<le> j" by auto
      with Cons.prems show "take 12 (io_uuid4 (io j)) \<notin> set (map alert_id (sent_alerts db'))"
        unfolding that by auto
    qed
    show ?thesis
    proof (cases "get_default (hz_type hz) ''cyclone'' = ''cyclone''
                  \<or> get_default (hz_type hz) ''cyclone'' = ''flood''")
      case False
      with Some skip show ?thesis by (simp add: Let_def)
    next
      case True
      then show ?thesis
      proof
        assume t: "get_default (hz_type hz) ''cyclone'' = ''cyclone''"
        let ?ad = "\<lparr>ad_hazard_type = ''cyclone'', ad_hazard_id = hz_id hz, ad_country = c,
                    ad_recipients = map rc_email (rcfg_recipients rcfg),
                    ad_subject = em_subject (build_cyclone_alert (pixel_url env) hz (rcfg_country rcfg)
                       (take 16 (md5_hexdigest env
                          (get_default (hz_id hz) '''' @ ''_'' @ c @ ''_'' @ io_now_tracking (io k)))))\<rparr>"
        from log_sent_alert_fresh [OF fresh, of "md5_hexdigest env" ?ad] obtain db'
          where l: "log_sent_alert (md5_hexdigest env) (io k) db ?ad = Inr (take 12 (io_uuid4 (io k)), db')"
            and m: "map alert_id (sent_alerts db')
                      = map alert_id (sent_alerts db) @ [take 12 (io_uuid4 (io k))]"
          by blast
        from step [OF m] Some t l show ?thesis by (simp add: Let_def)
      next
        assume t: "get_default (hz_type hz) ''cyclone'' = ''flood''"
        let ?ad = "\<lparr>ad_hazard_type = ''flood'', ad_hazard_id = hz_id hz, ad_country = c,
                    ad_recipients = map rc_email (rcfg_recipients rcfg),
                    ad_subject = em_subject (build_flood_alert hz (rcfg_country rcfg)
                       (take 16 (md5_hexdigest env
                          (get_default (hz_id hz) '''' @ ''_'' @ c @ ''_'' @ io_now_tracking (io k)))))\<rparr>"
        from log_sent_alert_fresh [OF fresh, of "md5_hexdigest env" ?ad] obtain db'
          where l: "log_sent_alert (md5_hexdigest env) (io k) db ?ad = Inr (take 12 (io_uuid4 (io k)), db')"
            and m: "map alert_id (sent_alerts db')
                      = map alert_id (sent_alerts db) @ [take 12 (io_uuid4 (io k))]"
          by blast
        from step [OF m] Some t l show ?thesis by (simp add: Let_def)
      qed
    qed
  qed
qed

lemma send_hazard_alert_completes:
  assumes "\<forall>j. take 12 (io_uuid4 (io j)) \<notin> set (map alert_id (sent_alerts db))"
    and "\<forall>i j. i \<noteq> j \<longrightarrow> take 12 (io_uuid4 (io i)) \<noteq> take 12 (io_uuid4 (io j))"
  shows "\<exists>r. send_hazard_alert env io db hz countries dry_run = Inr r"
proof -
  have "\<exists>r. send_loop env io hz 0 cs ([], [], db) = Inr r" for cs
    by (rule send_loop_completes) (use assms in auto)
  then show ?thesis by (simp add: send_hazard_alert_def Let_def)
qed

subsection \<open>C1: no alert is suppressed by an earlier one\<close>

text \<open>
  C1, as stated, fails: the test hazard is sent to Mozambique at 10:00 and again at 11:00
  the same day. The second invocation inserts a second \<open>sent_alerts\<close> row for the same
  hazard id and country, one hour after the first.
\<close>

theorem C1_counterexample:
  "send_hazard_alert sample_env io_10h empty_db test_hazard (Some [''mozambique'']) False
     = Inr ([''1b9d6bcd-bbf''], [(''mozambique'', email_10h)], db_after_10h)
   \<and> send_hazard_alert sample_env io_11h db_after_10h test_hazard (Some [''mozambique'']) False
     = Inr ([''6ec0bd7f-11c''], [(''mozambique'', email_11h)], db_after_11h)
   \<and> map hazard_id (sent_alerts db_after_11h) = [Some ''test_001'', Some ''test_001'']
   \<and> map country (sent_alerts db_after_11h) = [''mozambique'', ''mozambique'']
   \<and> map sent_at (sent_alerts db_after_11h)
       = [''2026-11-03T10:00:00.000300'', ''2026-11-03T11:00:00.000300'']
   \<and> length (sent_alerts db_after_11h) = length (sent_alerts db_after_10h) + 1"
  by (intro conjI run_10h run_11h)
     (simp_all add: db_after_11h_def db_after_10h_def alert_10h_def alert_11h_def)

text \<open>
  C1, amended: \<open>send_hazard_alert\<close> keeps no deduplication window. Every invocation that
  completes, for a hazard of type cyclone or flood, leaves the earlier rows as they are and
  appends exactly one \<open>sent_alerts\<close> row, carrying the hazard's id, for each country of
  the list (given, or detected from the location) that has a recipient entry, in the order
  of the list and whatever rows the table already holds; it returns as many alert ids.
\<close>

theorem C1_no_dedup_amended:
  assumes "send_hazard_alert env io db hz countries dry_run = Inr (ids, built, db')"
    and "get_default (hz_type hz) ''cyclone'' = ''cyclone'' \<or> get_default (hz_type hz) ''cyclone'' = ''flood''"
  shows "take (length (sent_alerts db)) (sent_alerts db') = sent_alerts db
       \<and> map country (drop (length (sent_alerts db)) (sent_alerts db'))
           = filter known_country (effective_countries hz countries)
       \<and> (\<forall>a\<in>set (drop (length (sent_alerts db)) (sent_alerts db')). hazard_id a = hz_id hz)
       \<and> length ids = length (filter known_country (effective_countries hz countries))"
proof -
  have "\<exists>new. sent_alerts db' = sent_alerts db @ new
           \<and> map country new = filter known_country (effective_countries hz countries)
           \<and> (\<forall>a\<in>set new. hazard_id a = hz_id hz)
           \<and> length ids = length ([]::string list) + length new"
  proof (cases "effective_countries hz countries = []")
    case True
    with assms(1) show ?thesis by (simp add: send_hazard_alert_def)
  next
    case False
    with assms(1) have "send_loop env io hz 0 (effective_countries hz countries) ([], [], db)
                          = Inr (ids, built, db')"
      by (simp add: send_hazard_alert_def Let_def)
    from send_loop_rows [OF this assms(2)] show ?thesis .
  qed
  then obtain new where new: "sent_alerts db' = sent_alerts db @ new"
      "map country new = filter known_country (effective_countries hz countries)"
      "\<forall>a\<in>set new. hazard_id a = hz_id hz" "length ids = length new"
    by auto
  have "length new = length (filter known_country (effective_countries hz countries))"
    using new(2) by (metis length_map)
  with new show ?thesis by simp
qed

text \<open>
  C1, amended, at the second run of the test hazard.
\<close>

theorem C1_no_dedup_amended_witness:
  "take (length (sent_alerts db_after_10h)) (sent_alerts db_after_11h) = sent_alerts db_after_10h
   \<and> map country (drop (length (sent_alerts db_after_10h)) (sent_alerts db_after_11h))
       = filter known_country (effective_countries test_hazard (Some [''mozambique'']))
   \<and> filter known_country (effective_countries test_hazard (Some [''mozambique''])) = [''mozambique'']"
proof -
  have t: "get_default (hz_type test_hazard) ''cyclone'' = ''cyclone''
           \<or> get_default (hz_type test_hazard) ''cyclone'' = ''flood''"
    by (simp add: test_hazard_def get_default_def)
  have "filter known_country (effective_countries test_hazard (Some [''mozambique''])) = [''mozambique'']"
    by (simp add: effective_countries_def known_country_def INSTITUTIONAL_RECIPIENTS_def)
  with C1_no_dedup_amended [OF run_11h t] show ?thesis by simp
qed



subsection \<open>Tracking opens\<close>

lemma mark_opened_opened_at:
  "opened_at (mark_opened tid t a)
     = (if tracking_pixel_id a = tid \<and> opened_at a = None then Some t else opened_at a)"
  by (simp add: mark_opened_def)

lemma mark_opened_pixel: "tracking_pixel_id (mark_opened tid t a) = tracking_pixel_id a"
  by (simp add: mark_opened_def)

lemma mark_opened_settled:
  "tracking_pixel_id a = tid \<longrightarrow> opened_at a \<noteq> None \<Longrightarrow> mark_opened tid t a = a"
  by (simp add: mark_opened_def)

lemma mark_opened_twice: "mark_opened tid t' (mark_opened tid t a) = mark_opened tid t a"
  by (rule mark_opened_settled) (simp add: mark_opened_opened_at mark_opened_pixel)

lemma log_tracking_open_opens:
  "tracking_opens (log_tracking_open db tid t1 t2 ip ua)
     = tracking_opens db @ [\<lparr>to_tracking_id = tid, to_opened_at = t1, to_ip_address = ip,
                              to_user_agent = ua\<rparr>]"
  by (simp add: log_tracking_open_def)

lemma log_tracking_open_alerts:
  "sent_alerts (log_tracking_open db tid t1 t2 ip ua) = map (mark_opened tid t2) (sent_alerts db)"
  by (simp add: log_tracking_open_def)

lemma log_tracking_open_twice:
  "sent_alerts (log_tracking_open (log_tracking_open db tid t1 t2 ip ua) tid t1' t2' ip' ua')
     = sent_alerts (log_tracking_open db tid t1 t2 ip ua)"
  by (simp add: log_tracking_open_alerts mark_opened_twice comp_def)

lemma record_opens_after_first:
  "sent_alerts (record_opens (log_tracking_open db tid t1 t2 ip ua) tid evs)
     = sent_alerts (log_tracking_open db tid t1 t2 ip ua)"
proof (induction evs arbitrary: db t1 t2 ip ua)
  case Nil
  show ?case by simp
next
  case (Cons ev evs)
  obtain s1 s2 ip' ua' where ev: "ev = (s1, s2, ip', ua')" by (cases ev)
  let ?db1 = "log_tracking_open db tid t1 t2 ip ua"
  have "sent_alerts (record_opens ?db1 tid (ev # evs))
          = sent_alerts (record_opens (log_tracking_open ?db1 tid s1 s2 ip' ua') tid evs)"
    by (simp add: ev)
  also have "\<dots> = sent_alerts (log_tracking_open ?db1 tid s1 s2 ip' ua')" by (rule Cons.IH)
  also have "\<dots> = sent_alerts ?db1" by (rule log_tracking_open_twice)
  finally show ?case .
qed

lemma record_opens_length:
  "length (tracking_opens (record_opens db tid evs)) = length (tracking_opens db) + length evs"
  by (induction db tid evs rule: record_opens.induct) (simp_all add: log_tracking_open_opens)

lemma record_opens_ids:
  "map to_tracking_id (tracking_opens (record_opens db tid evs))
     = map to_tracking_id (tracking_opens db) @ replicate (length evs) tid"
  by (induction db tid evs rule: record_opens.induct)
     (simp_all add: log_tracking_open_opens replicate_append_same)

subsection \<open>C8: recording opens\<close>

text \<open>
  C8: a sequence of \<open>log_tracking_open\<close> calls with one tracking id inserts one
  \<open>tracking_opens\<close> row per call, each with that id; the \<open>sent_alerts\<close> table after
  the whole sequence is the one left by the first call, which sets \<open>opened_at\<close> on the
  rows with that tracking id that were not opened yet and changes nothing else.
\<close>

theorem C8_record_open_idempotent:
  "length (tracking_opens (record_opens db tid evs)) = length (tracking_opens db) + length evs
   \<and> map to_tracking_id (tracking_opens (record_opens db tid evs))
       = map to_tracking_id (tracking_opens db) @ replicate (length evs) tid
   \<and> (evs = (t1, t2, ip, ua) # rest \<longrightarrow>
        sent_alerts (record_opens db tid evs) = sent_alerts (log_tracking_open db tid t1 t2 ip ua)
      \<and> map opened_at (sent_alerts (record_opens db tid evs))
          = map (\<lambda>a. if tracking_pixel_id a = tid \<and> opened_at a = None then Some t2
                     else opened_at a) (sent_alerts db))"
proof (intro conjI impI)
  show "length (tracking_opens (record_opens db tid evs)) = length (tracking_opens db) + length evs"
    by (rule record_opens_length)
  show "map to_tracking_id (tracking_opens (record_opens db tid evs))
          = map to_tracking_id (tracking_opens db) @ replicate (length evs) tid"
    by (rule record_opens_ids)
  assume evs: "evs = (t1, t2, ip, ua) # rest"
  show first: "sent_alerts (record_opens db tid evs)
                 = sent_alerts (log_tracking_open db tid t1 t2 ip ua)"
    unfolding evs using record_opens_after_first by simp
  show "map opened_at (sent_alerts (record_opens db tid evs))
          = map (\<lambda>a. if tracking_pixel_id a = tid \<and> opened_at a = None then Some t2
                     else opened_at a) (sent_alerts db)"
    unfolding first log_tracking_open_alerts
    by (simp add: comp_def mark_opened_opened_at)
qed

text \<open>
  C8, at the alert stored by the first run, opened twice with its stored tracking id.
\<close>

theorem C8_record_open_idempotent_witness:
  "length (tracking_opens (record_opens db_after_10h ''bf4158c5be865385'' two_opens)) = 2
   \<and> map opened_at (sent_alerts (record_opens db_after_10h ''bf4158c5be865385'' two_opens))
       = [Some ''2026-11-03T12:00:00.000200'']"
proof -
  have e: "two_opens =
      (''2026-11-03T12:00:00.000100'', ''2026-11-03T12:00:00.000200'', Some ''196.3.96.1'', None)
        # [(''2026-11-03T12:01:00.000100'', ''2026-11-03T12:01:00.000200'', Some ''196.3.96.1'', None)]"
    by (simp add: two_opens_def)
  from C8_record_open_idempotent [of db_after_10h "''bf4158c5be865385''" two_opens
      "''2026-11-03T12:00:00.000100''" "''2026-11-03T12:00:00.000200''" "Some ''196.3.96.1''" None
      "[(''2026-11-03T12:01:00.000100'', ''2026-11-03T12:01:00.000200'', Some ''196.3.96.1'', None)]"] e
  have "length (tracking_opens (record_opens db_after_10h ''bf4158c5be865385'' two_opens))
          = length (tracking_opens db_after_10h) + length two_opens"
    and "map opened_at (sent_alerts (record_opens db_after_10h ''bf4158c5be865385'' two_opens))
          = map (\<lambda>a. if tracking_pixel_id a = ''bf4158c5be865385'' \<and> opened_at a = None
                     then Some ''2026-11-03T12:00:00.000200'' else opened_at a)
                (sent_alerts db_after_10h)"
    by blast+
  then show ?thesis by (simp add: db_after_10h_def alert_10h_def two_opens_def)
qed

subsection \<open>C10: the tracking id in the message and the one in the table\<close>

text \<open>
  The id stored with a new row is computed from the fresh alert id and the clock alone.
\<close>

lemma stored_tracking_id:
  assumes "log_sent_alert m io db ad = Inr (i, db')"
  shows "tracking_pixel_id (last (sent_alerts db'))
           = take 16 (m (take 12 (io_uuid4 io) @ ''_'' @ io_now_token io))"
  using log_sent_alert_Inr(1) [OF assms] by auto

text \<open>
  C10 at the first run of the test hazard: the message carries the token
  \<open>872882506f9ee82e\<close> (in both bodies and in the address of the tracking image), the row
  stores \<open>bf4158c5be865385\<close>, and a request for the image with the token of the message
  leaves \<open>opened_at\<close> of the row empty.
\<close>

theorem C10_tracking_id_mismatch:
  "send_hazard_alert sample_env io_10h empty_db test_hazard (Some [''mozambique'']) False
     = Inr ([''1b9d6bcd-bbf''], [(''mozambique'', email_10h)], db_after_10h)
   \<and> em_text_alert_id email_10h = ''872882506f9ee82e''
   \<and> em_html_alert_id email_10h = ''872882506f9ee82e''
   \<and> em_pixel_src email_10h = Some ''https://afrostorm.org/track/872882506f9ee82e.png''
   \<and> map tracking_pixel_id (sent_alerts db_after_10h) = [''bf4158c5be865385'']
   \<and> map opened_at (sent_alerts (log_tracking_open db_after_10h ''872882506f9ee82e''
          ''2026-11-03T12:00:00.000100'' ''2026-11-03T12:00:00.000200'' None None)) = [None]"
  by (intro conjI run_10h)
     (simp_all add: email_10h_def db_after_10h_def alert_10h_def log_tracking_open_def
        mark_opened_def)

subsection \<open>The monitor's cycle\<close>

lemma save_detection_runs:
  "save_detection db det now = Inr (i, db') \<Longrightarrow> monitor_runs db' = monitor_runs db"
  by (auto simp: save_detection_def split: if_splits)

lemma check_and_alert_runs:
  "check_and_alert cfg bm db det i now = (b, db') \<Longrightarrow> monitor_runs db' = monitor_runs db"
  by (auto simp: check_and_alert_def save_alert_def split: if_splits)

text \<open>No step of the cycle writes \<open>monitor_runs\<close>, whether it completes or raises.\<close>

lemma save_and_alert_runs:
  "save_and_alert cfg bm io k dets st = r \<Longrightarrow>
   monitor_runs (cdb (case r of Inl (e, st', l) \<Rightarrow> st' | Inr st' \<Rightarrow> st')) = monitor_runs (cdb st)"
proof (induction dets arbitrary: k st r)
  case Nil
  then show ?case by auto
next
  case (Cons det dets)
  show ?case
  proof (cases "save_detection (cdb st) det (io_now_saved io k)")
    case (Inl e)
    with Cons.prems show ?thesis by auto
  next
    case (Inr p)
    obtain i db1 where p: "p = (i, db1)" by (cases p)
    from Inr p have s: "save_detection (cdb st) det (io_now_saved io k) = Inr (i, db1)"
      by simp
    have m1: "monitor_runs db1 = monitor_runs (cdb st)" by (rule save_detection_runs [OF s])
    show ?thesis
    proof (cases "io_alert_fault io k")
      case (Some e)
      with Cons.prems s m1 show ?thesis by auto
    next
      case None
      obtain alerted db2
        where c: "check_and_alert cfg bm db1 det i (io_now_alert io k) = (alerted, db2)"
        by (cases "check_and_alert cfg bm db1 det i (io_now_alert io k)")
      have m2: "monitor_runs db2 = monitor_runs db1" by (rule check_and_alert_runs [OF c])
      let ?st2 = "st\<lparr>cdb := db2,
                      alerts_sent := (if alerted then alerts_sent st + 1 else alerts_sent st)\<rparr>"
      from Cons.prems s None c
      have "save_and_alert cfg bm io (Suc k) dets ?st2 = r" by simp
      from Cons.IH [OF this] m1 m2 show ?thesis by simp
    qed
  qed
qed

lemma cycle_steps_runs:
  "monitor_runs (cdb (case cycle_steps cfg bm io db of Inl (e, st, l) \<Rightarrow> st | Inr st \<Rightarrow> st))
     = monitor_runs db"
proof -
  let ?st0 = "\<lparr>all_detections = [], data_sources = [], alerts_sent = 0, cdb = db\<rparr>"
  show ?thesis
  proof (cases "fetch_fnv3 cfg io ?st0")
    case (Inl a)
    then have "fst (snd a) = ?st0" by (auto simp: fetch_fnv3_def split: if_splits sum.splits)
    with Inl show ?thesis by (cases a) (simp add: cycle_steps_def)
  next
    case (Inr st1)
    then have c1: "cdb st1 = db" by (auto simp: fetch_fnv3_def split: if_splits sum.splits)
    show ?thesis
    proof (cases "analyse_era5 cfg io st1")
      case (Inl a)
      then have "fst (snd a) = st1"
        by (auto simp: analyse_era5_def Let_def split: if_splits sum.splits option.splits)
      with Inl Inr c1 show ?thesis by (cases a) (simp add: cycle_steps_def)
    next
      case st2: (Inr st2)
      then have c2: "cdb st2 = cdb st1"
        by (auto simp: analyse_era5_def Let_def split: if_splits sum.splits option.splits)
      have "cycle_steps cfg bm io db = save_and_alert cfg bm io 0 (all_detections st2) st2"
        by (simp add: cycle_steps_def Inr st2)
      with save_and_alert_runs [OF refl, of cfg bm io 0 "all_detections st2" st2] c1 c2
      show ?thesis by simp
    qed
  qed
qed

text \<open>
  What \<open>run_once\<close> does to \<open>monitor_runs\<close>. When it returns, it has appended one row:
  \<open>success\<close> when the steps completed, \<open>error\<close> with the text of the exception when a
  step raised without holding the write lock. When a step raised holding the write lock,
  \<open>run_once\<close> raises \<^verbatim>\<open>database is locked\<close> and has appended no row.
\<close>

lemma run_once_rows:
  "(case cycle_steps cfg bm io db of
      Inr st \<Rightarrow>
        (\<exists>db'. run_once cfg bm io db
                 = Inr (RunSuccess (length (all_detections st)) (alerts_sent st) (io_run_duration io), db')
             \<and> length (monitor_runs db') = length (monitor_runs db) + 1
             \<and> butlast (monitor_runs db') = monitor_runs db
             \<and> mr_status (last (monitor_runs db')) = Some ''success''
             \<and> mr_error (last (monitor_runs db')) = None)
    | Inl (e, st, False) \<Rightarrow>
        (\<exists>db'. run_once cfg bm io db = Inr (RunError e, db')
             \<and> length (monitor_runs db') = length (monitor_runs db) + 1
             \<and> butlast (monitor_runs db') = monitor_runs db
             \<and> mr_status (last (monitor_runs db')) = Some ''error''
             \<and> mr_error (last (monitor_runs db')) = Some e)
    | Inl (e, st, True) \<Rightarrow>
        run_once cfg bm io db = Inl (''database is locked'', cdb st)
        \<and> monitor_runs (cdb st) = monitor_runs db)"
proof (cases "cycle_steps cfg bm io db")
  case (Inl a)
  obtain e st l where a: "a = (e, st, l)" by (cases a)
  from cycle_steps_runs [of cfg bm io db] Inl a
  have m: "monitor_runs (cdb st) = monitor_runs db" by simp
  show ?thesis by (cases l) (simp_all add: run_once_def run_handler_def Inl a log_run_def m)
next
  case (Inr st)
  from cycle_steps_runs [of cfg bm io db] Inr
  have m: "monitor_runs (cdb st) = monitor_runs db" by simp
  show ?thesis by (simp add: run_once_def Inr log_run_def m)
qed

lemmas cycle_eval_defs = run_once_def run_handler_def cycle_steps_def fetch_fnv3_def
  analyse_era5_def CONFIG_monitor_def quiet_io_def storm_io_def broken_io_def nolat_io_def
  nolat_detection_def empty_cyclone_db_def log_run_def get_default_def save_detection_def
  check_and_alert_def save_alert_def of_era5_def Let_def

text \<open>A quiet cycle logs one \<open>success\<close> row; a cycle whose FNV3 fetch raises, one \<open>error\<close> row.\<close>

lemma quiet_run:
  "run_once CONFIG_monitor plain_message quiet_io empty_cyclone_db
     = Inr (RunSuccess 0 0 1.5,
            \<lparr>detections = [], alerts = [],
             monitor_runs = [\<lparr>mr_run_time = Some ''2026-11-03T06:00:00'', mr_data_source = Some '''',
                               mr_detections_count = 0, mr_alerts_sent = 0,
                               mr_duration_seconds = Some 1.5, mr_status = Some ''success'',
                               mr_error = None\<rparr>]\<rparr>)"
  by (simp add: cycle_eval_defs)

lemma broken_run:
  "run_once CONFIG_monitor plain_message broken_io empty_cyclone_db
     = Inr (RunError ''No module named requests'',
            \<lparr>detections = [], alerts = [],
             monitor_runs = [\<lparr>mr_run_time = Some ''2026-11-03T06:00:00'', mr_data_source = Some '''',
                               mr_detections_count = 0, mr_alerts_sent = 0,
                               mr_duration_seconds = None, mr_status = Some ''error'',
                               mr_error = Some ''No module named requests''\<rparr>]\<rparr>)"
  by (simp add: cycle_eval_defs)

text \<open>A cycle that finds the cyclone of \<open>border_step\<close>, saves it and logs an alert.\<close>

lemma storm_run:
  "\<exists>db'. run_once CONFIG_monitor plain_message storm_io empty_cyclone_db
            = Inr (RunSuccess 1 1 1.5, db')
        \<and> map mr_status (monitor_runs db') = [Some ''success'']
        \<and> map mr_data_source (monitor_runs db') = [Some ''era5'']
        \<and> map ar_detection_id (alerts db') = [1]"
  by (simp add: cycle_eval_defs detect_border_step border_detection_def)

text \<open>The insert of a detection without latitude raises.\<close>

lemma nolat_save_raises:
  "\<exists>e. save_detection db nolat_detection now = Inl e"
  by (simp add: save_detection_def nolat_detection_def)

subsection \<open>C7: one row of \<open>monitor_runs\<close> per cycle\<close>

text \<open>
  C7 says that every invocation of \<open>run_once\<close> inserts exactly one row into
  \<open>monitor_runs\<close>, with status \<open>error\<close> and the message when any step raises, and that no
  invocation inserts zero rows. The code does not do that when the step that raises is the
  insert of a detection. The cycle below receives from the FNV3 service one system whose
  coordinates are \<^verbatim>\<open>[34.84, null]\<close>; \<^verbatim>\<open>save_detection\<close> raises on the
  \<^verbatim>\<open>NOT NULL\<close> column \<^verbatim>\<open>lat\<close> and leaves its connection open with the write lock;
  the handler's \<^verbatim>\<open>log_run\<close> then raises \<^verbatim>\<open>database is locked\<close>, which nothing
  catches: \<open>run_once\<close> raises instead of returning the error result, and \<open>monitor_runs\<close>
  is as empty after the cycle as before it.
\<close>

theorem C7_no_row_when_save_fails:
  "run_once CONFIG_monitor plain_message nolat_io empty_cyclone_db
     = Inl (''database is locked'', empty_cyclone_db)
   \<and> monitor_runs empty_cyclone_db = []
   \<and> cycle_steps CONFIG_monitor plain_message nolat_io empty_cyclone_db
     = Inl (''NOT NULL constraint failed: detections.lat'',
            \<lparr>all_detections = [nolat_detection], data_sources = [''fnv3''], alerts_sent = 0,
             cdb = empty_cyclone_db\<rparr>, True)"
  by (simp add: cycle_eval_defs)

subsection \<open>Floods\<close>

text \<open>
  The aggregation keeps every feature it is given: the features of its result are those of
  the SAR result, marked with their source, followed by one point per VIIRS flood. No area
  is compared with anything, and \<open>min_area_km2\<close> is not read.
\<close>

lemma detect_floods_keeps_all:
  assumes "choose_bbox region_key box cyclone_location = Some (b, name)"
  shows "map ft_area_km2 (features_of (detect_floods region_key box cyclone_location
             (Inr (Some sar_features)) (Inr floods) glofas))
           = map ft_area_km2 sar_features @ map vf_area_km2 floods"
  using assms
  by (simp add: features_of_def detect_floods_def Let_def comp_def split: sum.splits)

text \<open>
  With the two bundled clients every aggregated feature has an area of at least 25 square
  kilometres: as long as they stand in for the providers, no feature below the configured
  minimum reaches the aggregation.
\<close>

lemma bundled_clients_areas:
  assumes "0 \<le> r1" and "0 \<le> r2"
    and "f \<in> set (features_of (detect_floods region_key box cyclone_location
                 (Inr (Some (simulate_flood_detection b1 r1)))
                 (Inr (simulate_viirs_floods b2 r_lat r_lon r2)) glofas))"
  shows "\<exists>a. ft_area_km2 f = Some a \<and> 25 \<le> a"
proof -
  obtain w s e n where b1: "b1 = (w, s, e, n)" by (cases b1)
  obtain w' s' e' n' where b2: "b2 = (w', s', e', n')" by (cases b2)
  from assms(3) have "ft_area_km2 f = Some (50 + r1 * 200) \<or> ft_area_km2 f = Some (25 + r2 * 100)"
    by (auto simp: features_of_def detect_floods_def simulate_flood_detection_def
        simulate_viirs_floods_def b1 b2 Let_def split: option.splits sum.splits prod.splits)
  with assms(1,2) show ?thesis by auto
qed

subsection \<open>C9: the minimum flood area\<close>


end
